theory Spec2Isabelle
  imports Complex_Main
begin

section \<open>Numbers\<close>

text \<open>
  The program computes with JavaScript numbers, which are IEEE 754 doubles.  Finite
  values are modelled as \<^typ>\<open>real\<close>, and products, quotients and sums inside a
  formula are taken exactly: their rounding and the sign of zero are not represented.
  Two things are represented.  A division whose divisor is a run-time value does not
  raise on a zero divisor, it yields \<open>Infinity\<close>, \<open>-Infinity\<close> or \<open>NaN\<close>
  (\<open>js_div\<close>).  And the addition that advances the counter of the income sweep is
  rounded to the nearest double, since rounding there changes which samples exist
  (\<open>js_add\<close>).
\<close>

datatype jsnum = Fin real | PosInf | NegInf | NaN

definition js_div :: "real \<Rightarrow> real \<Rightarrow> jsnum" where
  "js_div a b =
     (if b \<noteq> 0 then Fin (a / b)
      else if 0 < a then PosInf
      else if a < 0 then NegInf
      else NaN)"

definition js_times :: "jsnum \<Rightarrow> real \<Rightarrow> jsnum" where
  "js_times x c =
     (case x of
        Fin a \<Rightarrow> Fin (a * c)
      | PosInf \<Rightarrow> (if 0 < c then PosInf else if c < 0 then NegInf else NaN)
      | NegInf \<Rightarrow> (if 0 < c then NegInf else if c < 0 then PosInf else NaN)
      | NaN \<Rightarrow> NaN)"

definition is_finite :: "jsnum \<Rightarrow> bool" where
  "is_finite x = (case x of Fin a \<Rightarrow> True | PosInf \<Rightarrow> False | NegInf \<Rightarrow> False | NaN \<Rightarrow> False)"

text \<open>
  Rounding to the nearest double, ties to the even significand.  The doubles around
  \<open>x \<noteq> 0\<close> are the multiples of \<open>2 ^ (e - 52)\<close>, where \<open>2 ^ e \<le> |x| < 2 ^ (e + 1)\<close>
  and \<open>e\<close> is not taken below \<open>- 1022\<close> (subnormal numbers); a result of magnitude
  \<open>2 ^ 1024\<close> or more is an infinity.  The sum of two doubles is the rounded exact sum.
\<close>

definition round_half_even :: "real \<Rightarrow> int" where
  "round_half_even x =
     (let f = \<lfloor>x\<rfloor>; d = x - of_int f
      in if d < 1 / 2 then f
         else if d > 1 / 2 then f + 1
         else if even f then f else f + 1)"

definition double_spacing :: "real \<Rightarrow> real" where
  "double_spacing x = 2 powi (max \<lfloor>log 2 \<bar>x\<bar>\<rfloor> (- 1022) - 52)"

definition to_double :: "real \<Rightarrow> jsnum" where
  "to_double x =
     (if x = 0 then Fin 0
      else
        (let q = double_spacing x;
             y = of_int (round_half_even (x / q)) * q
         in if \<bar>y\<bar> \<ge> 2 ^ 1024 then (if x > 0 then PosInf else NegInf) else Fin y))"

definition js_add :: "real \<Rightarrow> real \<Rightarrow> jsnum" where
  "js_add a b = to_double (a + b)"

text \<open>\<open>Math.floor\<close> and \<open>Math.round\<close> (halves round towards plus infinity).\<close>

definition Math_floor :: "real \<Rightarrow> real" where
  "Math_floor x = of_int \<lfloor>x\<rfloor>"

definition Math_round :: "real \<Rightarrow> real" where
  "Math_round x = of_int \<lfloor>x + 1 / 2\<rfloor>"

section \<open>Child Care Subsidy: \<open>subsidyCalculations.ts\<close>\<close>

text \<open>
  The rates are those of 2025-26.  The schedule for the second and later children has
  its own thresholds and ends at 50 per cent.  Amounts with cents are written as
  fractions.
\<close>

definition BASE_INCOME :: real where "BASE_INCOME = 85279"
definition BASE_SUBSIDY_PERCENT :: real where "BASE_SUBSIDY_PERCENT = 90"
definition SECOND_CHILD_BASE_INCOME :: real where "SECOND_CHILD_BASE_INCOME = 143273"
definition SECOND_CHILD_SUBSIDY_PERCENT :: real where "SECOND_CHILD_SUBSIDY_PERCENT = 95"
definition SECOND_CHILD_INCOME_STEP :: real where "SECOND_CHILD_INCOME_STEP = 3000"
definition SECOND_CHILD_FIRST_BRACKET_END :: real where "SECOND_CHILD_FIRST_BRACKET_END = 188273"
definition SECOND_CHILD_FLAT_80_END :: real where "SECOND_CHILD_FLAT_80_END = 267563"
definition SECOND_CHILD_SECOND_BRACKET_END :: real where "SECOND_CHILD_SECOND_BRACKET_END = 357563"
definition SECOND_CHILD_MIN_SUBSIDY_PERCENT :: real where "SECOND_CHILD_MIN_SUBSIDY_PERCENT = 50"
definition INCOME_STEP :: real where "INCOME_STEP = 5000"
definition SUBSIDY_DECREASE_PER_STEP :: real where "SUBSIDY_DECREASE_PER_STEP = 1"
definition MAX_INCOME :: real where "MAX_INCOME = 535279"
definition HOURLY_RATE_CAP_UNDER_SCHOOL_AGE :: real where
  "HOURLY_RATE_CAP_UNDER_SCHOOL_AGE = 1463 / 100"
definition HOURLY_RATE_CAP_SCHOOL_AGE :: real where
  "HOURLY_RATE_CAP_SCHOOL_AGE = 1281 / 100"
definition MIN_SUBSIDISED_HOURS :: real where "MIN_SUBSIDISED_HOURS = 72"
definition MAX_SUBSIDISED_HOURS :: real where "MAX_SUBSIDISED_HOURS = 100"
definition ACTIVITY_THRESHOLD_FOR_MAX_HOURS :: real where
  "ACTIVITY_THRESHOLD_FOR_MAX_HOURS = 48"

datatype age_category = under_school | school_age

record Child =
  age :: age_category
  hoursPerDay :: real
  daysPerWeek :: real
  hourlyRate :: real
  isSecondOrLater :: bool

definition calculateSubsidyPercent :: "real \<Rightarrow> bool \<Rightarrow> real" where
  "calculateSubsidyPercent income isSecond =
     (if isSecond then
        (if income \<le> SECOND_CHILD_BASE_INCOME then SECOND_CHILD_SUBSIDY_PERCENT
         else if income \<le> SECOND_CHILD_FIRST_BRACKET_END then
           (let incomeOverBase = income - SECOND_CHILD_BASE_INCOME;
                steps = Math_floor (incomeOverBase / SECOND_CHILD_INCOME_STEP);
                subsidyPercent = SECOND_CHILD_SUBSIDY_PERCENT - steps * SUBSIDY_DECREASE_PER_STEP
            in max 80 subsidyPercent)
         else if income \<le> SECOND_CHILD_FLAT_80_END then 80
         else if income \<le> SECOND_CHILD_SECOND_BRACKET_END then
           (let incomeOverBase = income - SECOND_CHILD_FLAT_80_END;
                steps = Math_floor (incomeOverBase / SECOND_CHILD_INCOME_STEP);
                subsidyPercent = 80 - steps * SUBSIDY_DECREASE_PER_STEP
            in max SECOND_CHILD_MIN_SUBSIDY_PERCENT subsidyPercent)
         else SECOND_CHILD_MIN_SUBSIDY_PERCENT)
      else
        (if income \<le> BASE_INCOME then BASE_SUBSIDY_PERCENT
         else if income \<ge> MAX_INCOME then 0
         else
           (let incomeOverBase = income - BASE_INCOME;
                steps = Math_floor (incomeOverBase / INCOME_STEP);
                subsidyPercent = BASE_SUBSIDY_PERCENT - steps * SUBSIDY_DECREASE_PER_STEP
            in max 0 subsidyPercent)))"

definition calculateSubsidisedHours :: "real \<Rightarrow> real" where
  "calculateSubsidisedHours activityHoursPerFortnight =
     (if activityHoursPerFortnight \<ge> ACTIVITY_THRESHOLD_FOR_MAX_HOURS
      then MAX_SUBSIDISED_HOURS else MIN_SUBSIDISED_HOURS)"


text \<open>
  The value returned by \<open>calculateChildSubsidy\<close>.  Its last two fields are named
  \<open>hoursPerDay\<close> and \<open>daysPerWeek\<close> in the source; they carry the prefix
  \<open>details_\<close> here because \<^typ>\<open>Child\<close> already owns these names.
\<close>

record ChildSubsidy =
  subsidyPercent :: real
  hourlyRateCap :: real
  subsidisedHoursPerFortnight :: real
  subsidyPerHour :: real
  details_hoursPerDay :: real
  details_daysPerWeek :: real

definition calculateChildSubsidy :: "Child \<Rightarrow> real \<Rightarrow> real \<Rightarrow> ChildSubsidy" where
  "calculateChildSubsidy child income activityHoursPerFortnight =
     (let percent = calculateSubsidyPercent income (isSecondOrLater child);
          cap = (if age child = under_school
                 then HOURLY_RATE_CAP_UNDER_SCHOOL_AGE else HOURLY_RATE_CAP_SCHOOL_AGE);
          hoursCeiling = calculateSubsidisedHours activityHoursPerFortnight;
          rateForSubsidy = min (hourlyRate child) cap;
          perHour = rateForSubsidy * (percent / 100)
      in \<lparr> subsidyPercent = percent,
           hourlyRateCap = cap,
           subsidisedHoursPerFortnight = hoursCeiling,
           subsidyPerHour = perHour,
           details_hoursPerDay = hoursPerDay child,
           details_daysPerWeek = daysPerWeek child \<rparr>)"

text \<open>
  One element of \<open>childDetails\<close>: the object spread \<open>{...details, subsidyAmount, ...}\<close>
  is a record extension that keeps every field of \<open>details\<close>.
\<close>

record ChildDetail = ChildSubsidy +
  subsidyAmount :: real
  totalCost :: real
  outOfPocket :: real
  subsidisedHours :: real
  unsubsidisedHours :: real

record TotalCosts =
  childDetails :: "ChildDetail list"
  totalChildcareSubsidy :: real
  totalChildcareCost :: real
  totalChildcareOutOfPocket :: real
  childcarePerDay :: jsnum

text \<open>The body of the \<open>children.map\<close> callback of \<open>calculateTotalCosts\<close>.\<close>

definition totalCosts_child :: "real \<Rightarrow> real \<Rightarrow> Child \<Rightarrow> ChildDetail" where
  "totalCosts_child income activityHoursPerFortnight child =
     (let details = calculateChildSubsidy child income activityHoursPerFortnight;
          hoursPerFortnight = hoursPerDay child * daysPerWeek child * 2;
          subsidised = min hoursPerFortnight (subsidisedHoursPerFortnight details);
          unsubsidised = max 0 (hoursPerFortnight - subsidised);
          amount = subsidised * subsidyPerHour details;
          cost = hoursPerFortnight * hourlyRate child;
          pocket = cost - amount
      in \<lparr> subsidyPercent = subsidyPercent details,
           hourlyRateCap = hourlyRateCap details,
           subsidisedHoursPerFortnight = subsidisedHoursPerFortnight details,
           subsidyPerHour = subsidyPerHour details,
           details_hoursPerDay = details_hoursPerDay details,
           details_daysPerWeek = details_daysPerWeek details,
           subsidyAmount = amount,
           totalCost = cost,
           outOfPocket = pocket,
           subsidisedHours = subsidised,
           unsubsidisedHours = unsubsidised \<rparr>)"

text \<open>
  The two running totals are updated inside the callback, child by child, and
  \<open>reduce\<close> is a left fold.  The division for \<open>childcarePerDay\<close> is by a run-time
  value, so it is written with \<^const>\<open>js_div\<close>, under the source's guard.
\<close>

definition calculateTotalCosts :: "Child list \<Rightarrow> real \<Rightarrow> real \<Rightarrow> TotalCosts" where
  "calculateTotalCosts children income activityHoursPerFortnight =
     (let details = map (totalCosts_child income activityHoursPerFortnight) children;
          subsidyTotal = foldl (\<lambda>acc d. acc + subsidyAmount d) 0 details;
          costTotal = foldl (\<lambda>acc d. acc + totalCost d) 0 details;
          pocketTotal = costTotal - subsidyTotal;
          totalDaysPerFortnight = foldl (\<lambda>sum child. sum + daysPerWeek child * 2) 0 children;
          perDay = (if totalDaysPerFortnight > 0
                    then js_div pocketTotal totalDaysPerFortnight else Fin 0)
      in \<lparr> childDetails = details,
           totalChildcareSubsidy = subsidyTotal,
           totalChildcareCost = costTotal,
           totalChildcareOutOfPocket = pocketTotal,
           childcarePerDay = perDay \<rparr>)"

section \<open>Income tax: \<open>taxCalculations.ts\<close>\<close>

definition calculateLowIncomeTaxOffset :: "real \<Rightarrow> real" where
  "calculateLowIncomeTaxOffset income =
     (if income \<le> 37000 then 700
      else if income \<le> 45000 then 700 - (5 / 100) * (income - 37000)
      else if income \<le> 66667 then 325 - (15 / 1000) * (income - 45000)
      else 0)"

definition calculateIncomeTax :: "real \<Rightarrow> real" where
  "calculateIncomeTax income =
     (if income \<le> 18200 then 0
      else
        (let firstBracket = min (income - 18200) 26800;
             tax1 = 0 + firstBracket * (16 / 100);
             tax2 = (if income > 45000
                     then tax1 + min (income - 45000) 90000 * (30 / 100) else tax1);
             tax3 = (if income > 135000
                     then tax2 + min (income - 135000) 55000 * (37 / 100) else tax2);
             tax4 = (if income > 190000
                     then tax3 + (income - 190000) * (45 / 100) else tax3);
             lito = calculateLowIncomeTaxOffset income
         in max 0 (tax4 - lito)))"

definition calculateMedicareLevy :: "real \<Rightarrow> real" where
  "calculateMedicareLevy income =
     (let SINGLE_THRESHOLD = 24276;
          SINGLE_SHADE_IN_END = 30345
      in if income \<le> SINGLE_THRESHOLD then 0
         else if income \<le> SINGLE_SHADE_IN_END then
           (let excess = income - SINGLE_THRESHOLD;
                shadeInRange = SINGLE_SHADE_IN_END - SINGLE_THRESHOLD;
                levyPercent = (excess / shadeInRange) * (2 / 100)
            in income * levyPercent)
         else income * (2 / 100))"

definition calculateAfterTaxIncome :: "real \<Rightarrow> real" where
  "calculateAfterTaxIncome income =
     (let incomeTax = calculateIncomeTax income;
          medicareLevy = calculateMedicareLevy income
      in income - incomeTax - medicareLevy)"

section \<open>The income sweep and its analysis: \<open>graphData.ts\<close>\<close>

record GraphDataPoint =
  grossIncome :: real
  netIncome :: real
  afterTax :: real
  childcareCost :: real

text \<open>
  The fields of \<open>BreakEvenPoint\<close> are \<open>income\<close> and \<open>netIncome\<close> in the source.
\<close>

record BreakEvenPoint =
  be_income :: real
  be_netIncome :: real

text \<open>The body of the sweep's loop: the sample pushed for one second-parent income.\<close>

definition graphDataPoint ::
  "real \<Rightarrow> Child list \<Rightarrow> real \<Rightarrow> bool \<Rightarrow> real \<Rightarrow> GraphDataPoint" where
  "graphDataPoint firstParentIncome children activityHoursPerFortnight isSingleParent
       secondParentIncome =
     (let incomeForSubsidy = (if isSingleParent then secondParentIncome
                              else firstParentIncome + secondParentIncome);
          costs = calculateTotalCosts children incomeForSubsidy activityHoursPerFortnight;
          afterTaxIncome = calculateAfterTaxIncome secondParentIncome;
          childcareOutOfPocketAnnual = totalChildcareOutOfPocket costs * 26;
          net = afterTaxIncome - childcareOutOfPocketAnnual
      in \<lparr> grossIncome = secondParentIncome,
           netIncome = net,
           afterTax = afterTaxIncome,
           childcareCost = childcareOutOfPocketAnnual \<rparr>)"

text \<open>
  \<open>for (let x = minIncome; x <= maxIncome; x += step) dataPoints.push(...)\<close>.
  The counter is advanced with \<^const>\<open>js_add\<close>.  When the sum overflows to
  \<open>Infinity\<close> the test \<open>x <= maxIncome\<close> fails and the loop ends after the current
  sample; when it overflows to \<open>-Infinity\<close> the test holds for ever.  Nothing in the
  source makes \<open>step\<close> positive, so the loop may run forever; the result is \<open>None\<close>
  exactly then.
\<close>

partial_function (option) calculateGraphData_loop ::
  "real \<Rightarrow> Child list \<Rightarrow> real \<Rightarrow> real \<Rightarrow> real \<Rightarrow> bool
     \<Rightarrow> GraphDataPoint list \<Rightarrow> real \<Rightarrow> GraphDataPoint list option" where
  "calculateGraphData_loop firstParentIncome children activityHoursPerFortnight
       maxIncome step isSingleParent dataPoints secondParentIncome =
     (if secondParentIncome \<le> maxIncome then
        (case js_add secondParentIncome step of
           Fin nextIncome \<Rightarrow>
             calculateGraphData_loop firstParentIncome children activityHoursPerFortnight
               maxIncome step isSingleParent
               (dataPoints @ [graphDataPoint firstParentIncome children
                                activityHoursPerFortnight isSingleParent secondParentIncome])
               nextIncome
         | PosInf \<Rightarrow>
             Some (dataPoints @ [graphDataPoint firstParentIncome children
                                   activityHoursPerFortnight isSingleParent secondParentIncome])
         | NegInf \<Rightarrow> None
         | NaN \<Rightarrow>
             Some (dataPoints @ [graphDataPoint firstParentIncome children
                                   activityHoursPerFortnight isSingleParent secondParentIncome]))
      else Some dataPoints)"

text \<open>The default values of the last four parameters are supplied by the caller here.\<close>

definition calculateGraphData ::
  "real \<Rightarrow> Child list \<Rightarrow> real \<Rightarrow> real \<Rightarrow> real \<Rightarrow> real \<Rightarrow> bool
     \<Rightarrow> GraphDataPoint list option" where
  "calculateGraphData firstParentIncome children activityHoursPerFortnight
       minIncome maxIncome step isSingleParent =
     calculateGraphData_loop firstParentIncome children activityHoursPerFortnight
       maxIncome step isSingleParent [] minIncome"

text \<open>
  The loops over \<open>i\<close> from \<open>0\<close> to \<open>length - 2\<close> read \<open>dataPoints[i]\<close> and
  \<open>dataPoints[i + 1]\<close>: they visit the adjacent pairs from left to right and return at
  the first pair that passes the test.  In each interpolation the divisor is non-zero
  in the branch that divides (see \<open>findBreakEvenPoint_divisor\<close>,
  \<open>findPointForIncome_divisor\<close> and \<open>findBreakEvenHours_divisor\<close>), so the quotient of
  \<^typ>\<open>real\<close> is the program's quotient.
\<close>

fun findBreakEvenPoint :: "GraphDataPoint list \<Rightarrow> BreakEvenPoint option" where
  "findBreakEvenPoint (current # nxt # rest) =
     (if netIncome current \<ge> 0 \<and> netIncome nxt < 0 then
        (let ratio = \<bar>netIncome current\<bar> / (\<bar>netIncome current\<bar> + \<bar>netIncome nxt\<bar>);
             breakEvenIncome =
               grossIncome current + (grossIncome nxt - grossIncome current) * ratio
         in Some \<lparr> be_income = breakEvenIncome, be_netIncome = 0 \<rparr>)
      else if netIncome current \<le> 0 \<and> netIncome nxt > 0 then
        (let ratio = \<bar>netIncome current\<bar> / (\<bar>netIncome current\<bar> + \<bar>netIncome nxt\<bar>);
             breakEvenIncome =
               grossIncome current + (grossIncome nxt - grossIncome current) * ratio
         in Some \<lparr> be_income = breakEvenIncome, be_netIncome = 0 \<rparr>)
      else findBreakEvenPoint (nxt # rest))"
| "findBreakEvenPoint [current] = None"
| "findBreakEvenPoint [] = None"

fun findPointForIncome_scan :: "GraphDataPoint list \<Rightarrow> real \<Rightarrow> GraphDataPoint option" where
  "findPointForIncome_scan (current # nxt # rest) targetIncome =
     (if grossIncome current \<le> targetIncome \<and> grossIncome nxt \<ge> targetIncome then
        (if grossIncome current = targetIncome then Some current
         else if grossIncome nxt = targetIncome then Some nxt
         else
           (let ratio = (targetIncome - grossIncome current)
                          / (grossIncome nxt - grossIncome current);
                net = netIncome current + (netIncome nxt - netIncome current) * ratio;
                tax = afterTax current + (afterTax nxt - afterTax current) * ratio;
                cost = childcareCost current
                         + (childcareCost nxt - childcareCost current) * ratio
            in Some \<lparr> grossIncome = targetIncome,
                      netIncome = net,
                      afterTax = tax,
                      childcareCost = cost \<rparr>))
      else findPointForIncome_scan (nxt # rest) targetIncome)"
| "findPointForIncome_scan [current] targetIncome = None"
| "findPointForIncome_scan [] targetIncome = None"

definition findPointForIncome :: "GraphDataPoint list \<Rightarrow> real \<Rightarrow> GraphDataPoint option" where
  "findPointForIncome dataPoints targetIncome =
     (if length dataPoints = 0 then None
      else findPointForIncome_scan dataPoints targetIncome)"

section \<open>The hours sweep: \<open>hoursGraphData.ts\<close>\<close>

text \<open>
  \<open>HoursGraphDataPoint\<close> has the fields \<open>hoursPerWeek\<close>, \<open>daysPerWeek\<close>,
  \<open>netIncome\<close>, \<open>grossIncome\<close>, \<open>afterTax\<close> and \<open>childcareCost\<close>; those that other
  records own already carry the prefix \<open>h_\<close>.
\<close>

record HoursGraphDataPoint =
  hoursPerWeek :: real
  h_daysPerWeek :: real
  h_netIncome :: real
  h_grossIncome :: real
  h_afterTax :: real
  h_childcareCost :: real

definition calculateDaysPerWeekFromHours :: "real \<Rightarrow> real" where
  "calculateDaysPerWeekFromHours hours =
     (let perDay = 76 / 10 in Math_round ((hours / perDay) * 10) / 10)"

text \<open>
  The callback of \<open>calculateTotalCostsWithWorkDays\<close>: \<open>calculateChildSubsidy\<close> is
  called with activity hours \<open>0\<close>, and the ceiling is the function's third argument.
\<close>

definition workDays_child :: "real \<Rightarrow> real \<Rightarrow> Child \<Rightarrow> ChildDetail" where
  "workDays_child income hoursCeiling child =
     (let details = calculateChildSubsidy child income 0;
          hoursPerFortnight = hoursPerDay child * daysPerWeek child * 2;
          subsidised = min hoursPerFortnight hoursCeiling;
          unsubsidised = max 0 (hoursPerFortnight - subsidised);
          amount = subsidised * subsidyPerHour details;
          cost = hoursPerFortnight * hourlyRate child;
          pocket = cost - amount
      in \<lparr> subsidyPercent = subsidyPercent details,
           hourlyRateCap = hourlyRateCap details,
           subsidisedHoursPerFortnight = subsidisedHoursPerFortnight details,
           subsidyPerHour = subsidyPerHour details,
           details_hoursPerDay = details_hoursPerDay details,
           details_daysPerWeek = details_daysPerWeek details,
           subsidyAmount = amount,
           totalCost = cost,
           outOfPocket = pocket,
           subsidisedHours = subsidised,
           unsubsidisedHours = unsubsidised \<rparr>)"

definition calculateTotalCostsWithWorkDays :: "Child list \<Rightarrow> real \<Rightarrow> real \<Rightarrow> TotalCosts" where
  "calculateTotalCostsWithWorkDays children income hoursCeiling =
     (let details = map (workDays_child income hoursCeiling) children;
          subsidyTotal = foldl (\<lambda>acc d. acc + subsidyAmount d) 0 details;
          costTotal = foldl (\<lambda>acc d. acc + totalCost d) 0 details;
          pocketTotal = costTotal - subsidyTotal;
          totalDaysPerFortnight = foldl (\<lambda>sum child. sum + daysPerWeek child * 2) 0 children;
          perDay = (if totalDaysPerFortnight > 0
                    then js_div pocketTotal totalDaysPerFortnight else Fin 0)
      in \<lparr> childDetails = details,
           totalChildcareSubsidy = subsidyTotal,
           totalChildcareCost = costTotal,
           totalChildcareOutOfPocket = pocketTotal,
           childcarePerDay = perDay \<rparr>)"

fun findBreakEvenHours :: "HoursGraphDataPoint list \<Rightarrow> HoursGraphDataPoint option" where
  "findBreakEvenHours (current # nxt # rest) =
     (if h_netIncome current \<le> 0 \<and> h_netIncome nxt > 0 then
        (let ratio = \<bar>h_netIncome current\<bar> / (\<bar>h_netIncome current\<bar> + h_netIncome nxt);
             breakEvenHours =
               hoursPerWeek current + (hoursPerWeek nxt - hoursPerWeek current) * ratio
         in if breakEvenHours < 1 / 2 then None
            else
              (let breakEvenDays = calculateDaysPerWeekFromHours breakEvenHours
               in Some \<lparr> hoursPerWeek = breakEvenHours,
                         h_daysPerWeek = breakEvenDays,
                         h_netIncome = 0,
                         h_grossIncome = h_grossIncome current
                           + (h_grossIncome nxt - h_grossIncome current) * ratio,
                         h_afterTax = h_afterTax current
                           + (h_afterTax nxt - h_afterTax current) * ratio,
                         h_childcareCost = h_childcareCost current
                           + (h_childcareCost nxt - h_childcareCost current) * ratio \<rparr>))
      else findBreakEvenHours (nxt # rest))"
| "findBreakEvenHours [current] = None"
| "findBreakEvenHours [] = None"

section \<open>The scenario evaluator: \<open>advocacyCalculator.ts\<close>\<close>

record SecondParentScenario =
  secondParentIncome :: real
  firstParentIncome :: real
  children :: "Child list"
  activityHoursPerFortnight :: real
  secondParentHoursPerFortnight :: "real option"

text \<open>
  The elements of \<open>childcareCosts.childDetails\<close> and the object \<open>childcareCosts\<close> of a
  \<open>FinancialBreakdown\<close>; the prefix \<open>fb_\<close> stands before the names that are taken.
\<close>

record BreakdownChildDetail =
  fb_subsidyPercent :: real
  fb_subsidyAmount :: real
  fb_totalCost :: real
  fb_outOfPocket :: real
  fb_isSecondOrLater :: bool
  fb_subsidisedHours :: real
  fb_unsubsidisedHours :: real
  fb_hoursPerDay :: real
  fb_daysPerWeek :: real

record ChildcareCosts =
  totalAnnual :: real
  totalSubsidy :: real
  outOfPocketAnnual :: real
  outOfPocketPerDay :: jsnum
  fb_childDetails :: "BreakdownChildDetail list"

record FinancialBreakdown =
  secondParentGrossIncome :: real
  secondParentAfterTax :: real
  childcareCosts :: ChildcareCosts
  netIncomeAfterChildcare :: real
  effectiveHourlyRate :: jsnum
  percentageOfIncomeLost :: jsnum

text \<open>
  \<open>a ?? b\<close> is \<open>b\<close> when the optional field is absent.  The two quotients of the
  function have run-time divisors and are written with \<^const>\<open>js_div\<close>: the first
  under the source's test \<open>annualWorkingHours > 0\<close>, the second without any test, as
  the source has it.
\<close>

definition calculateSecondParentScenario :: "SecondParentScenario \<Rightarrow> FinancialBreakdown" where
  "calculateSecondParentScenario scenario =
     (let combinedIncome = firstParentIncome scenario + secondParentIncome scenario;
          costs = calculateTotalCosts (children scenario) combinedIncome
                    (activityHoursPerFortnight scenario);
          afterTaxIncome = calculateAfterTaxIncome (secondParentIncome scenario);
          childcareOutOfPocketAnnual = totalChildcareOutOfPocket costs * 26;
          net = afterTaxIncome - childcareOutOfPocketAnnual;
          hoursPerFortnightForRate =
            (case secondParentHoursPerFortnight scenario of
               Some hours \<Rightarrow> hours
             | None \<Rightarrow> activityHoursPerFortnight scenario);
          annualWorkingHours = hoursPerFortnightForRate * 26;
          rate = (if annualWorkingHours > 0 then js_div net annualWorkingHours else Fin 0);
          lost = js_times
                   (js_div (secondParentIncome scenario - net) (secondParentIncome scenario))
                   100
      in \<lparr> secondParentGrossIncome = secondParentIncome scenario,
           secondParentAfterTax = afterTaxIncome,
           childcareCosts =
             \<lparr> totalAnnual = totalChildcareCost costs * 26,
               totalSubsidy = totalChildcareSubsidy costs * 26,
               outOfPocketAnnual = childcareOutOfPocketAnnual,
               outOfPocketPerDay = childcarePerDay costs,
               fb_childDetails =
                 map (\<lambda>(detail, index).
                        \<lparr> fb_subsidyPercent = subsidyPercent detail,
                          fb_subsidyAmount = subsidyAmount detail * 26,
                          fb_totalCost = totalCost detail * 26,
                          fb_outOfPocket = outOfPocket detail * 26,
                          fb_isSecondOrLater =
                            (if index < length (children scenario)
                             then isSecondOrLater (children scenario ! index) else False),
                          fb_subsidisedHours = subsidisedHours detail,
                          fb_unsubsidisedHours = unsubsidisedHours detail,
                          fb_hoursPerDay = details_hoursPerDay detail,
                          fb_daysPerWeek = details_daysPerWeek detail \<rparr>)
                     (zip (childDetails costs) [0..<length (childDetails costs)]) \<rparr>,
           netIncomeAfterChildcare = net,
           effectiveHourlyRate = rate,
           percentageOfIncomeLost = lost \<rparr>)"

section \<open>Vocabulary of the statements\<close>

text \<open>
  The tests and interpolation formulas of the scanning loops, named so that the
  theorems can speak of the first adjacent pair that passes a test.
\<close>

definition crossesZero :: "GraphDataPoint \<Rightarrow> GraphDataPoint \<Rightarrow> bool" where
  "crossesZero current nxt =
     ((netIncome current \<ge> 0 \<and> netIncome nxt < 0) \<or>
      (netIncome current \<le> 0 \<and> netIncome nxt > 0))"

definition crossingIncome :: "GraphDataPoint \<Rightarrow> GraphDataPoint \<Rightarrow> real" where
  "crossingIncome current nxt =
     grossIncome current + (grossIncome nxt - grossIncome current)
       * (\<bar>netIncome current\<bar> / (\<bar>netIncome current\<bar> + \<bar>netIncome nxt\<bar>))"

definition risesThroughZero :: "HoursGraphDataPoint \<Rightarrow> HoursGraphDataPoint \<Rightarrow> bool" where
  "risesThroughZero current nxt = (h_netIncome current \<le> 0 \<and> h_netIncome nxt > 0)"

definition fallsThroughZero :: "HoursGraphDataPoint \<Rightarrow> HoursGraphDataPoint \<Rightarrow> bool" where
  "fallsThroughZero current nxt = (h_netIncome current > 0 \<and> h_netIncome nxt < 0)"

definition crossingHours :: "HoursGraphDataPoint \<Rightarrow> HoursGraphDataPoint \<Rightarrow> real" where
  "crossingHours current nxt =
     hoursPerWeek current + (hoursPerWeek nxt - hoursPerWeek current)
       * (\<bar>h_netIncome current\<bar> / (\<bar>h_netIncome current\<bar> + h_netIncome nxt))"

definition crossingHoursPoint ::
  "HoursGraphDataPoint \<Rightarrow> HoursGraphDataPoint \<Rightarrow> HoursGraphDataPoint" where
  "crossingHoursPoint current nxt =
     (let ratio = \<bar>h_netIncome current\<bar> / (\<bar>h_netIncome current\<bar> + h_netIncome nxt)
      in \<lparr> hoursPerWeek = crossingHours current nxt,
           h_daysPerWeek = calculateDaysPerWeekFromHours (crossingHours current nxt),
           h_netIncome = 0,
           h_grossIncome = h_grossIncome current
             + (h_grossIncome nxt - h_grossIncome current) * ratio,
           h_afterTax = h_afterTax current + (h_afterTax nxt - h_afterTax current) * ratio,
           h_childcareCost = h_childcareCost current
             + (h_childcareCost nxt - h_childcareCost current) * ratio \<rparr>)"

text \<open>The number of samples of the income sweep for a positive step.\<close>

definition sweepCount :: "real \<Rightarrow> real \<Rightarrow> real \<Rightarrow> nat" where
  "sweepCount minIncome maxIncome step =
     (if minIncome \<le> maxIncome then nat \<lfloor>(maxIncome - minIncome) / step\<rfloor> + 1 else 0)"

text \<open>The test of \<open>findPointForIncome\<close> and the point it interpolates.\<close>

definition bracketsTarget :: "GraphDataPoint \<Rightarrow> GraphDataPoint \<Rightarrow> real \<Rightarrow> bool" where
  "bracketsTarget current nxt targetIncome =
     (grossIncome current \<le> targetIncome \<and> grossIncome nxt \<ge> targetIncome)"

definition interpolatedPoint ::
  "GraphDataPoint \<Rightarrow> GraphDataPoint \<Rightarrow> real \<Rightarrow> GraphDataPoint" where
  "interpolatedPoint current nxt targetIncome =
     (let ratio = (targetIncome - grossIncome current) / (grossIncome nxt - grossIncome current)
      in \<lparr> grossIncome = targetIncome,
           netIncome = netIncome current + (netIncome nxt - netIncome current) * ratio,
           afterTax = afterTax current + (afterTax nxt - afterTax current) * ratio,
           childcareCost = childcareCost current
             + (childcareCost nxt - childcareCost current) * ratio \<rparr>)"
lemmas subsidy_constants =
  BASE_INCOME_def BASE_SUBSIDY_PERCENT_def SECOND_CHILD_BASE_INCOME_def
  SECOND_CHILD_SUBSIDY_PERCENT_def SECOND_CHILD_INCOME_STEP_def
  SECOND_CHILD_FIRST_BRACKET_END_def SECOND_CHILD_FLAT_80_END_def
  SECOND_CHILD_SECOND_BRACKET_END_def SECOND_CHILD_MIN_SUBSIDY_PERCENT_def
  INCOME_STEP_def SUBSIDY_DECREASE_PER_STEP_def MAX_INCOME_def
  HOURLY_RATE_CAP_UNDER_SCHOOL_AGE_def HOURLY_RATE_CAP_SCHOOL_AGE_def
  MIN_SUBSIDISED_HOURS_def MAX_SUBSIDISED_HOURS_def ACTIVITY_THRESHOLD_FOR_MAX_HOURS_def

section \<open>Properties of the subsidy percentage\<close>

lemma floor_step:
  fixes x s :: real and k :: nat
  assumes "0 < s" "of_nat k * s \<le> x" "x < (of_nat k + 1) * s"
  shows "Math_floor (x / s) = of_nat k"
proof -
  have "of_int (int k) \<le> x / s"
    using assms by (simp add: pos_le_divide_eq)
  moreover have "x / s < of_int (int k) + 1"
    using assms by (simp add: pos_divide_less_eq)
  ultimately have "\<lfloor>x / s\<rfloor> = int k"
    by (simp add: floor_unique)
  then show ?thesis
    by (simp add: Math_floor_def)
qed


lemma std_formula:
  assumes "BASE_INCOME < income" "income \<le> MAX_INCOME"
  shows "calculateSubsidyPercent income False =
     max 0 (BASE_SUBSIDY_PERCENT - Math_floor ((income - BASE_INCOME) / INCOME_STEP) * 1)"
  using assms
  by (auto simp: calculateSubsidyPercent_def Let_def subsidy_constants Math_floor_def)

lemma prio_first_formula:
  assumes "SECOND_CHILD_BASE_INCOME < income" "income \<le> SECOND_CHILD_FIRST_BRACKET_END"
  shows "calculateSubsidyPercent income True =
     max 80 (SECOND_CHILD_SUBSIDY_PERCENT
              - Math_floor ((income - SECOND_CHILD_BASE_INCOME) / SECOND_CHILD_INCOME_STEP) * 1)"
  using assms
  by (simp add: calculateSubsidyPercent_def Let_def subsidy_constants)

lemma prio_second_formula:
  assumes "SECOND_CHILD_FLAT_80_END < income" "income \<le> SECOND_CHILD_SECOND_BRACKET_END"
  shows "calculateSubsidyPercent income True =
     max SECOND_CHILD_MIN_SUBSIDY_PERCENT
       (80 - Math_floor ((income - SECOND_CHILD_FLAT_80_END) / SECOND_CHILD_INCOME_STEP) * 1)"
  using assms
  by (simp add: calculateSubsidyPercent_def Let_def subsidy_constants)

lemma std_step:
  fixes k :: nat
  assumes "BASE_INCOME < income" "income \<le> MAX_INCOME"
    and "BASE_INCOME + of_nat k * INCOME_STEP \<le> income"
    and "income < BASE_INCOME + (of_nat k + 1) * INCOME_STEP"
  shows "calculateSubsidyPercent income False = BASE_SUBSIDY_PERCENT - of_nat k"
proof -
  have fl: "Math_floor ((income - BASE_INCOME) / INCOME_STEP) = of_nat k"
    using assms(3,4) by (intro floor_step) (simp_all add: INCOME_STEP_def)
  have "real k * 5000 \<le> 450000"
    using assms(2,3) by (simp add: subsidy_constants)
  then have "real k \<le> 90" by simp
  then show ?thesis
    using std_formula[OF assms(1,2)] fl by (simp add: BASE_SUBSIDY_PERCENT_def)
qed

lemma prio_first_step:
  fixes k :: nat
  assumes "SECOND_CHILD_BASE_INCOME < income" "income \<le> SECOND_CHILD_FIRST_BRACKET_END"
    and "SECOND_CHILD_BASE_INCOME + of_nat k * SECOND_CHILD_INCOME_STEP \<le> income"
    and "income < SECOND_CHILD_BASE_INCOME + (of_nat k + 1) * SECOND_CHILD_INCOME_STEP"
  shows "calculateSubsidyPercent income True = SECOND_CHILD_SUBSIDY_PERCENT - of_nat k"
proof -
  have fl: "Math_floor ((income - SECOND_CHILD_BASE_INCOME) / SECOND_CHILD_INCOME_STEP) = of_nat k"
    using assms(3,4) by (intro floor_step) (simp_all add: SECOND_CHILD_INCOME_STEP_def)
  have "real k * 3000 \<le> 45000"
    using assms(2,3) by (simp add: subsidy_constants)
  then have "real k \<le> 15" by simp
  then show ?thesis
    using prio_first_formula[OF assms(1,2)] fl by (simp add: SECOND_CHILD_SUBSIDY_PERCENT_def)
qed

lemma prio_second_step:
  fixes k :: nat
  assumes "SECOND_CHILD_FLAT_80_END < income" "income \<le> SECOND_CHILD_SECOND_BRACKET_END"
    and "SECOND_CHILD_FLAT_80_END + of_nat k * SECOND_CHILD_INCOME_STEP \<le> income"
    and "income < SECOND_CHILD_FLAT_80_END + (of_nat k + 1) * SECOND_CHILD_INCOME_STEP"
  shows "calculateSubsidyPercent income True = 80 - of_nat k"
proof -
  have fl: "Math_floor ((income - SECOND_CHILD_FLAT_80_END) / SECOND_CHILD_INCOME_STEP) = of_nat k"
    using assms(3,4) by (intro floor_step) (simp_all add: SECOND_CHILD_INCOME_STEP_def)
  have "real k * 3000 \<le> 90000"
    using assms(2,3) by (simp add: subsidy_constants)
  then have "real k \<le> 30" by simp
  then show ?thesis
    using prio_second_formula[OF assms(1,2)] fl
    by (simp add: SECOND_CHILD_MIN_SUBSIDY_PERCENT_def)
qed

lemma subsidy_examples:
  "calculateSubsidyPercent (85279 + 5000) False = 89"
  "calculateSubsidyPercent (85279 + 10000) False = 88"
  "calculateSubsidyPercent 150000 True = 93"
  by (simp_all add: calculateSubsidyPercent_def Let_def subsidy_constants Math_floor_def)

text \<open>
  Claim C1.  Inside each declining segment, strictly above its start, the percentage is
  the segment's base percentage minus \<open>floor ((income - start) / step)\<close> points, clamped
  at the segment's floor.  Hence an income in the \<open>k\<close>-th step
  \<open>[start + k * step, start + (k + 1) * step)\<close> of a segment gets exactly \<open>base - k\<close>: the
  boundary income \<open>start + k * step\<close> already belongs to the lower step.  The three
  worked values of the specification are 89, 88 and 93.
\<close>

theorem calculateSubsidyPercent_floor_division:
  fixes income :: real and k :: nat
  shows
  "(BASE_INCOME < income \<and> income \<le> MAX_INCOME \<longrightarrow>
      calculateSubsidyPercent income False =
        max 0 (BASE_SUBSIDY_PERCENT - Math_floor ((income - BASE_INCOME) / INCOME_STEP) * 1)) \<and>
   (SECOND_CHILD_BASE_INCOME < income \<and> income \<le> SECOND_CHILD_FIRST_BRACKET_END \<longrightarrow>
      calculateSubsidyPercent income True =
        max 80 (SECOND_CHILD_SUBSIDY_PERCENT
                 - Math_floor ((income - SECOND_CHILD_BASE_INCOME) / SECOND_CHILD_INCOME_STEP) * 1)) \<and>
   (SECOND_CHILD_FLAT_80_END < income \<and> income \<le> SECOND_CHILD_SECOND_BRACKET_END \<longrightarrow>
      calculateSubsidyPercent income True =
        max SECOND_CHILD_MIN_SUBSIDY_PERCENT
          (80 - Math_floor ((income - SECOND_CHILD_FLAT_80_END) / SECOND_CHILD_INCOME_STEP) * 1)) \<and>
   (BASE_INCOME < income \<and> income \<le> MAX_INCOME \<and>
    BASE_INCOME + of_nat k * INCOME_STEP \<le> income \<and>
    income < BASE_INCOME + (of_nat k + 1) * INCOME_STEP \<longrightarrow>
      calculateSubsidyPercent income False = BASE_SUBSIDY_PERCENT - of_nat k) \<and>
   (SECOND_CHILD_BASE_INCOME < income \<and> income \<le> SECOND_CHILD_FIRST_BRACKET_END \<and>
    SECOND_CHILD_BASE_INCOME + of_nat k * SECOND_CHILD_INCOME_STEP \<le> income \<and>
    income < SECOND_CHILD_BASE_INCOME + (of_nat k + 1) * SECOND_CHILD_INCOME_STEP \<longrightarrow>
      calculateSubsidyPercent income True = SECOND_CHILD_SUBSIDY_PERCENT - of_nat k) \<and>
   (SECOND_CHILD_FLAT_80_END < income \<and> income \<le> SECOND_CHILD_SECOND_BRACKET_END \<and>
    SECOND_CHILD_FLAT_80_END + of_nat k * SECOND_CHILD_INCOME_STEP \<le> income \<and>
    income < SECOND_CHILD_FLAT_80_END + (of_nat k + 1) * SECOND_CHILD_INCOME_STEP \<longrightarrow>
      calculateSubsidyPercent income True = 80 - of_nat k) \<and>
   calculateSubsidyPercent (85279 + 5000) False = 89 \<and>
   calculateSubsidyPercent (85279 + 10000) False = 88 \<and>
   calculateSubsidyPercent 150000 True = 93"
  using std_formula[of income] prio_first_formula[of income] prio_second_formula[of income]
    std_step[of income k] prio_first_step[of income k] prio_second_step[of income k]
    subsidy_examples
  by blast

theorem calculateSubsidyPercent_floor_division_witness:
  "calculateSubsidyPercent 95279 False = 88 \<and>
   calculateSubsidyPercent 188273 True = 80 \<and>
   calculateSubsidyPercent 270563 True = 79"
proof -
  have a: "calculateSubsidyPercent 95279 False = BASE_SUBSIDY_PERCENT - of_nat 2"
    using calculateSubsidyPercent_floor_division[of 95279 2]
    by (simp add: subsidy_constants)
  have b: "calculateSubsidyPercent 188273 True = SECOND_CHILD_SUBSIDY_PERCENT - of_nat 15"
    using calculateSubsidyPercent_floor_division[of 188273 15]
    by (simp add: subsidy_constants)
  have c: "calculateSubsidyPercent 270563 True = 80 - of_nat 1"
    using calculateSubsidyPercent_floor_division[of 270563 1]
    by (simp add: subsidy_constants)
  show ?thesis
    using a b c by (simp add: subsidy_constants)
qed

text \<open>
  Claim C2.  From the final priority threshold (357563) on, the priority percentage is
  exactly 50, never 0, however large the income; from the standard maximum-income
  threshold (535279) on, the standard percentage is 0.
\<close>

theorem calculateSubsidyPercent_terminal:
  "(SECOND_CHILD_SECOND_BRACKET_END \<le> income \<longrightarrow>
      calculateSubsidyPercent income True = 50 \<and> calculateSubsidyPercent income True \<noteq> 0) \<and>
   (MAX_INCOME \<le> income \<longrightarrow> calculateSubsidyPercent income False = 0)"
  by (auto simp: calculateSubsidyPercent_def Let_def subsidy_constants Math_floor_def)

theorem calculateSubsidyPercent_terminal_witness:
  "SECOND_CHILD_SECOND_BRACKET_END \<le> 357563 \<and> calculateSubsidyPercent 357563 True = 50 \<and>
   MAX_INCOME \<le> 1000000 \<and> calculateSubsidyPercent 1000000 False = 0 \<and>
   calculateSubsidyPercent 1000000 True = 50"
  using calculateSubsidyPercent_terminal[of 357563] calculateSubsidyPercent_terminal[of 1000000]
  by (simp add: subsidy_constants)

section \<open>Income tax below the tax-free threshold\<close>

text \<open>
  Claim C8.  For every income from 0 up to the tax-free threshold 18200,
  \<open>calculateIncomeTax\<close> returns exactly 0 and the levy-inclusive
  \<open>calculateAfterTaxIncome\<close> returns the income unchanged: the Medicare levy starts
  at 24276 only.
\<close>

theorem tax_free_threshold:
  "0 \<le> income \<and> income \<le> 18200 \<longrightarrow>
     calculateIncomeTax income = 0 \<and> calculateAfterTaxIncome income = income"
  by (simp add: calculateIncomeTax_def calculateAfterTaxIncome_def calculateMedicareLevy_def Let_def)

theorem tax_free_threshold_witness:
  "(0::real) \<le> 18200 \<and> calculateIncomeTax 18200 = 0 \<and> calculateAfterTaxIncome 18200 = 18200"
  using tax_free_threshold[of 18200] by simp

section \<open>The two cost aggregations\<close>

lemma calculateChildSubsidy_activity:
  "subsidyPerHour (calculateChildSubsidy child income a) =
   subsidyPerHour (calculateChildSubsidy child income b)"
  by (simp add: calculateChildSubsidy_def Let_def)

lemma calculateChildSubsidy_ceiling:
  "subsidisedHoursPerFortnight (calculateChildSubsidy child income a) = calculateSubsidisedHours a"
  by (simp add: calculateChildSubsidy_def Let_def)

lemma workDays_child_amounts:
  "subsidyAmount (workDays_child income (calculateSubsidisedHours h) child) =
     subsidyAmount (totalCosts_child income h child)"
  "totalCost (workDays_child income (calculateSubsidisedHours h) child) =
     totalCost (totalCosts_child income h child)"
  "outOfPocket (workDays_child income (calculateSubsidisedHours h) child) =
     outOfPocket (totalCosts_child income h child)"
  "subsidisedHours (workDays_child income (calculateSubsidisedHours h) child) =
     subsidisedHours (totalCosts_child income h child)"
  "unsubsidisedHours (workDays_child income (calculateSubsidisedHours h) child) =
     unsubsidisedHours (totalCosts_child income h child)"
  by (simp_all add: workDays_child_def totalCosts_child_def calculateChildSubsidy_def Let_def)

lemma foldl_map_cong:
  assumes "\<And>x. f (g x) = f' (g' x)"
  shows "foldl (\<lambda>acc d. acc + f d) (a::real) (map g xs) = foldl (\<lambda>acc d. acc + f' d) a (map g' xs)"
  by (induction xs arbitrary: a) (simp_all add: assms)

text \<open>
  Claim C6.  Called with the ceiling \<open>calculateSubsidisedHours h\<close>,
  \<open>calculateTotalCostsWithWorkDays\<close> returns the same four totals as
  \<open>calculateTotalCosts\<close> called with activity hours \<open>h\<close>, and child by child the same
  \<open>subsidyAmount\<close>, \<open>totalCost\<close>, \<open>outOfPocket\<close>, \<open>subsidisedHours\<close> and
  \<open>unsubsidisedHours\<close>.
\<close>

theorem cost_variants_agree:
  "totalChildcareSubsidy (calculateTotalCostsWithWorkDays cs income (calculateSubsidisedHours h)) =
     totalChildcareSubsidy (calculateTotalCosts cs income h) \<and>
   totalChildcareCost (calculateTotalCostsWithWorkDays cs income (calculateSubsidisedHours h)) =
     totalChildcareCost (calculateTotalCosts cs income h) \<and>
   totalChildcareOutOfPocket (calculateTotalCostsWithWorkDays cs income (calculateSubsidisedHours h)) =
     totalChildcareOutOfPocket (calculateTotalCosts cs income h) \<and>
   childcarePerDay (calculateTotalCostsWithWorkDays cs income (calculateSubsidisedHours h)) =
     childcarePerDay (calculateTotalCosts cs income h) \<and>
   map subsidyAmount (childDetails (calculateTotalCostsWithWorkDays cs income (calculateSubsidisedHours h))) =
     map subsidyAmount (childDetails (calculateTotalCosts cs income h)) \<and>
   map totalCost (childDetails (calculateTotalCostsWithWorkDays cs income (calculateSubsidisedHours h))) =
     map totalCost (childDetails (calculateTotalCosts cs income h)) \<and>
   map outOfPocket (childDetails (calculateTotalCostsWithWorkDays cs income (calculateSubsidisedHours h))) =
     map outOfPocket (childDetails (calculateTotalCosts cs income h)) \<and>
   map subsidisedHours (childDetails (calculateTotalCostsWithWorkDays cs income (calculateSubsidisedHours h))) =
     map subsidisedHours (childDetails (calculateTotalCosts cs income h)) \<and>
   map unsubsidisedHours (childDetails (calculateTotalCostsWithWorkDays cs income (calculateSubsidisedHours h))) =
     map unsubsidisedHours (childDetails (calculateTotalCosts cs income h))"
proof -
  have s: "foldl (\<lambda>acc d. acc + subsidyAmount d) 0
             (map (workDays_child income (calculateSubsidisedHours h)) cs) =
           foldl (\<lambda>acc d. acc + subsidyAmount d) 0 (map (totalCosts_child income h) cs)"
    by (rule foldl_map_cong) (rule workDays_child_amounts)
  have c: "foldl (\<lambda>acc d. acc + totalCost d) 0
             (map (workDays_child income (calculateSubsidisedHours h)) cs) =
           foldl (\<lambda>acc d. acc + totalCost d) 0 (map (totalCosts_child income h) cs)"
    by (rule foldl_map_cong) (rule workDays_child_amounts)
  show ?thesis
    by (simp add: calculateTotalCostsWithWorkDays_def calculateTotalCosts_def Let_def s c
        workDays_child_amounts)
qed

lemma workDays_child_ceiling:
  "subsidisedHoursPerFortnight (workDays_child income hoursCeiling child) = MIN_SUBSIDISED_HOURS"
  by (simp add: workDays_child_def calculateChildSubsidy_def calculateSubsidisedHours_def
      Let_def ACTIVITY_THRESHOLD_FOR_MAX_HOURS_def)

lemma workDays_child_hours:
  "subsidisedHours (workDays_child income hoursCeiling child) =
     min (hoursPerDay child * daysPerWeek child * 2) hoursCeiling"
  by (simp add: workDays_child_def Let_def)

lemma workDays_childDetails:
  "childDetails (calculateTotalCostsWithWorkDays cs income hoursCeiling) =
     map (workDays_child income hoursCeiling) cs"
  by (simp add: calculateTotalCostsWithWorkDays_def Let_def)

text \<open>
  Claim C10.  Every element of \<open>childDetails\<close> returned by
  \<open>calculateTotalCostsWithWorkDays\<close> reports \<open>subsidisedHoursPerFortnight = 72\<close>
  (\<open>MIN_SUBSIDISED_HOURS\<close>), whatever ceiling the caller supplied; the supplied ceiling
  only bounds \<open>subsidisedHours\<close>.  For one child in care 10 hours on 5 days and the
  ceiling 100, the reported ceiling is 72 while 100 hours are subsidised.
\<close>

theorem workDays_reported_ceiling:
  "(\<forall>d \<in> set (childDetails (calculateTotalCostsWithWorkDays cs income hoursCeiling)).
      subsidisedHoursPerFortnight d = MIN_SUBSIDISED_HOURS) \<and>
   MIN_SUBSIDISED_HOURS = 72 \<and>
   map subsidisedHours (childDetails (calculateTotalCostsWithWorkDays cs income hoursCeiling)) =
     map (\<lambda>child. min (hoursPerDay child * daysPerWeek child * 2) hoursCeiling) cs \<and>
   map subsidisedHoursPerFortnight
     (childDetails (calculateTotalCostsWithWorkDays
        [\<lparr> age = under_school, hoursPerDay = 10, daysPerWeek = 5, hourlyRate = 18,
           isSecondOrLater = False \<rparr>] 94103 100)) = [72] \<and>
   map subsidisedHours
     (childDetails (calculateTotalCostsWithWorkDays
        [\<lparr> age = under_school, hoursPerDay = 10, daysPerWeek = 5, hourlyRate = 18,
           isSecondOrLater = False \<rparr>] 94103 100)) = [100]"
  by (simp add: workDays_childDetails workDays_child_ceiling workDays_child_hours
      MIN_SUBSIDISED_HOURS_def comp_def)

theorem workDays_reported_ceiling_witness:
  "workDays_child 150000 88
     \<lparr> age = school_age, hoursPerDay = 8, daysPerWeek = 4, hourlyRate = 15,
       isSecondOrLater = True \<rparr>
     \<in> set (childDetails (calculateTotalCostsWithWorkDays
         [\<lparr> age = school_age, hoursPerDay = 8, daysPerWeek = 4, hourlyRate = 15,
            isSecondOrLater = True \<rparr>] 150000 88)) \<and>
   subsidisedHoursPerFortnight
     (workDays_child 150000 88
        \<lparr> age = school_age, hoursPerDay = 8, daysPerWeek = 4, hourlyRate = 15,
          isSecondOrLater = True \<rparr>) = 72"
proof -
  let ?c = "\<lparr> age = school_age, hoursPerDay = 8, daysPerWeek = 4, hourlyRate = 15,
              isSecondOrLater = True \<rparr>"
  have m: "workDays_child 150000 88 ?c
             \<in> set (childDetails (calculateTotalCostsWithWorkDays [?c] 150000 88))"
    by (simp add: calculateTotalCostsWithWorkDays_def Let_def)
  have "subsidisedHoursPerFortnight (workDays_child 150000 88 ?c) = MIN_SUBSIDISED_HOURS"
    using workDays_reported_ceiling[of "[?c]" 150000 88] m by blast
  moreover have "MIN_SUBSIDISED_HOURS = 72"
    using workDays_reported_ceiling[of "[?c]" 150000 88] by blast
  ultimately show ?thesis
    using m by simp
qed

section \<open>Break-even search on the income sweep\<close>

lemma findBreakEvenPoint_divisor:
  "crossesZero current nxt \<Longrightarrow> \<bar>netIncome current\<bar> + \<bar>netIncome nxt\<bar> > 0"
  by (auto simp: crossesZero_def)

lemma findBreakEvenPoint_step:
  "findBreakEvenPoint (current # nxt # rest) =
     (if crossesZero current nxt
      then Some \<lparr> be_income = crossingIncome current nxt, be_netIncome = 0 \<rparr>
      else findBreakEvenPoint (nxt # rest))"
  by (simp add: crossesZero_def crossingIncome_def Let_def)

lemma findBreakEvenPoint_first:
  "Suc i < length pts \<Longrightarrow> crossesZero (pts ! i) (pts ! Suc i) \<Longrightarrow>
   (\<forall>j<i. \<not> crossesZero (pts ! j) (pts ! Suc j)) \<Longrightarrow>
   findBreakEvenPoint pts =
     Some \<lparr> be_income = crossingIncome (pts ! i) (pts ! Suc i), be_netIncome = 0 \<rparr>"
proof (induction pts arbitrary: i rule: findBreakEvenPoint.induct)
  case (1 current nxt rest)
  show ?case
  proof (cases i)
    case 0
    with "1.prems" show ?thesis
      by (simp only: findBreakEvenPoint_step) simp
  next
    case (Suc i')
    with "1.prems"(3) have no: "\<not> crossesZero current nxt"
      by force
    have a: "Suc i' < length (nxt # rest)"
      using "1.prems"(1) Suc by simp
    have b: "crossesZero ((nxt # rest) ! i') ((nxt # rest) ! Suc i')"
      using "1.prems"(2) Suc by simp
    have c: "\<forall>j<i'. \<not> crossesZero ((nxt # rest) ! j) ((nxt # rest) ! Suc j)"
    proof (intro allI impI)
      fix j assume "j < i'"
      then have "Suc j < i" using Suc by simp
      with "1.prems"(3) have "\<not> crossesZero ((current # nxt # rest) ! Suc j)
                                  ((current # nxt # rest) ! Suc (Suc j))"
        by blast
      then show "\<not> crossesZero ((nxt # rest) ! j) ((nxt # rest) ! Suc j)"
        by simp
    qed
    have "findBreakEvenPoint (nxt # rest) =
            Some \<lparr> be_income = crossingIncome ((nxt # rest) ! i') ((nxt # rest) ! Suc i'),
                   be_netIncome = 0 \<rparr>"
      using no "1.IH"[OF _ _ a b c] by (simp add: crossesZero_def)
    then show ?thesis
      using no Suc by (simp only: findBreakEvenPoint_step) simp
  qed
qed simp_all

lemma findBreakEvenPoint_none:
  "(\<forall>i. Suc i < length pts \<longrightarrow> \<not> crossesZero (pts ! i) (pts ! Suc i)) \<Longrightarrow>
   findBreakEvenPoint pts = None"
proof (induction pts rule: findBreakEvenPoint.induct)
  case (1 current nxt rest)
  from "1.prems" have no: "\<not> crossesZero current nxt"
    by force
  have "\<forall>i. Suc i < length (nxt # rest) \<longrightarrow>
          \<not> crossesZero ((nxt # rest) ! i) ((nxt # rest) ! Suc i)"
  proof (intro allI impI)
    fix i assume "Suc i < length (nxt # rest)"
    then have "Suc (Suc i) < length (current # nxt # rest)" by simp
    with "1.prems" have "\<not> crossesZero ((current # nxt # rest) ! Suc i)
                                ((current # nxt # rest) ! Suc (Suc i))"
      by blast
    then show "\<not> crossesZero ((nxt # rest) ! i) ((nxt # rest) ! Suc i)" by simp
  qed
  then have "findBreakEvenPoint (nxt # rest) = None"
    using no "1.IH" by (simp add: crossesZero_def)
  then show ?case
    using no by (simp only: findBreakEvenPoint_step) simp
qed simp_all

lemma findBreakEvenPoint_same_sign:
  assumes "(\<forall>p \<in> set pts. netIncome p > 0) \<or> (\<forall>p \<in> set pts. netIncome p < 0)"
  shows "findBreakEvenPoint pts = None"
proof (rule findBreakEvenPoint_none, intro allI impI)
  fix i assume "Suc i < length pts"
  then have "pts ! i \<in> set pts" "pts ! Suc i \<in> set pts"
    by simp_all
  with assms show "\<not> crossesZero (pts ! i) (pts ! Suc i)"
    by (auto simp: crossesZero_def)
qed

lemma findBreakEvenPoint_example:
  "findBreakEvenPoint
     [\<lparr> grossIncome = 50000, netIncome = - 10000, afterTax = 40000, childcareCost = 50000 \<rparr>,
      \<lparr> grossIncome = 60000, netIncome = - 5000, afterTax = 50000, childcareCost = 55000 \<rparr>,
      \<lparr> grossIncome = 70000, netIncome = 5000, afterTax = 60000, childcareCost = 55000 \<rparr>,
      \<lparr> grossIncome = 80000, netIncome = 15000, afterTax = 70000, childcareCost = 55000 \<rparr>]
   = Some \<lparr> be_income = 65000, be_netIncome = 0 \<rparr>"
  by simp

text \<open>
  Claim C5.  \<open>findBreakEvenPoint\<close> returns the crossing of the first adjacent pair
  whose net income changes sign, in either direction (from \<open>\<ge> 0\<close> to \<open>< 0\<close> or from
  \<open>\<le> 0\<close> to \<open>> 0\<close>): the income interpolated with
  \<open>ratio = |current| / (|current| + |next|)\<close>, and net income 0.  It returns null when no
  adjacent pair changes sign, in particular when all samples are positive or all are
  negative.  On the four samples of the specification it returns the income 65000,
  strictly between 60000 and 70000.
\<close>

theorem findBreakEvenPoint_crossing:
  "(\<forall>i. Suc i < length pts \<and> crossesZero (pts ! i) (pts ! Suc i) \<and>
        (\<forall>j<i. \<not> crossesZero (pts ! j) (pts ! Suc j)) \<longrightarrow>
        findBreakEvenPoint pts =
          Some \<lparr> be_income = crossingIncome (pts ! i) (pts ! Suc i), be_netIncome = 0 \<rparr>) \<and>
   ((\<forall>i. Suc i < length pts \<longrightarrow> \<not> crossesZero (pts ! i) (pts ! Suc i)) \<longrightarrow>
        findBreakEvenPoint pts = None) \<and>
   ((\<forall>p \<in> set pts. netIncome p > 0) \<or> (\<forall>p \<in> set pts. netIncome p < 0) \<longrightarrow>
        findBreakEvenPoint pts = None) \<and>
   findBreakEvenPoint
     [\<lparr> grossIncome = 50000, netIncome = - 10000, afterTax = 40000, childcareCost = 50000 \<rparr>,
      \<lparr> grossIncome = 60000, netIncome = - 5000, afterTax = 50000, childcareCost = 55000 \<rparr>,
      \<lparr> grossIncome = 70000, netIncome = 5000, afterTax = 60000, childcareCost = 55000 \<rparr>,
      \<lparr> grossIncome = 80000, netIncome = 15000, afterTax = 70000, childcareCost = 55000 \<rparr>]
     = Some \<lparr> be_income = 65000, be_netIncome = 0 \<rparr> \<and>
   (60000 :: real) < 65000 \<and> (65000 :: real) < 70000"
  using findBreakEvenPoint_first[of _ pts] findBreakEvenPoint_none[of pts]
    findBreakEvenPoint_same_sign[of pts] findBreakEvenPoint_example
  by (intro conjI allI impI) (blast, blast, blast, blast, simp_all)

theorem findBreakEvenPoint_crossing_witness:
  "findBreakEvenPoint
     [\<lparr> grossIncome = 50000, netIncome = 10000, afterTax = 40000, childcareCost = 30000 \<rparr>,
      \<lparr> grossIncome = 60000, netIncome = 15000, afterTax = 50000, childcareCost = 35000 \<rparr>]
     = None \<and>
   findBreakEvenPoint
     [\<lparr> grossIncome = 10000, netIncome = 2000, afterTax = 10000, childcareCost = 8000 \<rparr>,
      \<lparr> grossIncome = 20000, netIncome = - 6000, afterTax = 19000, childcareCost = 25000 \<rparr>]
     = Some \<lparr> be_income = 12500, be_netIncome = 0 \<rparr>"
proof -
  let ?up = "[\<lparr> grossIncome = 50000, netIncome = 10000, afterTax = 40000, childcareCost = 30000 \<rparr>,
      \<lparr> grossIncome = 60000, netIncome = 15000, afterTax = 50000, childcareCost = 35000 \<rparr>]"
  let ?down = "[\<lparr> grossIncome = 10000, netIncome = 2000, afterTax = 10000, childcareCost = 8000 \<rparr>,
      \<lparr> grossIncome = 20000, netIncome = - 6000, afterTax = 19000, childcareCost = 25000 \<rparr>]"
  have pos: "\<forall>p \<in> set ?up. netIncome p > 0"
    by simp
  have a: "findBreakEvenPoint ?up = None"
    using findBreakEvenPoint_crossing[of ?up] pos by blast
  have h: "Suc 0 < length ?down \<and> crossesZero (?down ! 0) (?down ! Suc 0) \<and>
           (\<forall>j<0. \<not> crossesZero (?down ! j) (?down ! Suc j))"
    by (simp add: crossesZero_def)
  have "findBreakEvenPoint ?down =
          Some \<lparr> be_income = crossingIncome (?down ! 0) (?down ! Suc 0), be_netIncome = 0 \<rparr>"
    using findBreakEvenPoint_crossing[of ?down] h by blast
  then have b: "findBreakEvenPoint ?down = Some \<lparr> be_income = 12500, be_netIncome = 0 \<rparr>"
    by (simp add: crossingIncome_def)
  show ?thesis
    using a b by (rule conjI)
qed

section \<open>Break-even search on the hours sweep\<close>

lemma findBreakEvenHours_divisor:
  "risesThroughZero current nxt \<Longrightarrow> \<bar>h_netIncome current\<bar> + h_netIncome nxt > 0"
  by (auto simp: risesThroughZero_def)

lemma findBreakEvenHours_step:
  "findBreakEvenHours (current # nxt # rest) =
     (if risesThroughZero current nxt
      then (if crossingHours current nxt < 1 / 2 then None
            else Some (crossingHoursPoint current nxt))
      else findBreakEvenHours (nxt # rest))"
  by (simp add: risesThroughZero_def crossingHours_def crossingHoursPoint_def Let_def)

lemma findBreakEvenHours_first:
  "Suc i < length pts \<Longrightarrow> risesThroughZero (pts ! i) (pts ! Suc i) \<Longrightarrow>
   (\<forall>j<i. \<not> risesThroughZero (pts ! j) (pts ! Suc j)) \<Longrightarrow>
   findBreakEvenHours pts =
     (if crossingHours (pts ! i) (pts ! Suc i) < 1 / 2 then None
      else Some (crossingHoursPoint (pts ! i) (pts ! Suc i)))"
proof (induction pts arbitrary: i rule: findBreakEvenHours.induct)
  case (1 current nxt rest)
  show ?case
  proof (cases i)
    case 0
    with "1.prems" show ?thesis
      by (simp only: findBreakEvenHours_step) simp
  next
    case (Suc i')
    with "1.prems"(3) have no: "\<not> risesThroughZero current nxt"
      by force
    have a: "Suc i' < length (nxt # rest)"
      using "1.prems"(1) Suc by simp
    have b: "risesThroughZero ((nxt # rest) ! i') ((nxt # rest) ! Suc i')"
      using "1.prems"(2) Suc by simp
    have c: "\<forall>j<i'. \<not> risesThroughZero ((nxt # rest) ! j) ((nxt # rest) ! Suc j)"
    proof (intro allI impI)
      fix j assume "j < i'"
      then have "Suc j < i" using Suc by simp
      with "1.prems"(3) have "\<not> risesThroughZero ((current # nxt # rest) ! Suc j)
                                  ((current # nxt # rest) ! Suc (Suc j))"
        by blast
      then show "\<not> risesThroughZero ((nxt # rest) ! j) ((nxt # rest) ! Suc j)"
        by simp
    qed
    have "findBreakEvenHours (nxt # rest) =
            (if crossingHours ((nxt # rest) ! i') ((nxt # rest) ! Suc i') < 1 / 2 then None
             else Some (crossingHoursPoint ((nxt # rest) ! i') ((nxt # rest) ! Suc i')))"
      using no "1.IH"[OF _ a b c] by (simp add: risesThroughZero_def)
    then show ?thesis
      using no Suc by (simp only: findBreakEvenHours_step) simp
  qed
qed simp_all

lemma findBreakEvenHours_none:
  "(\<forall>i. Suc i < length pts \<longrightarrow> \<not> risesThroughZero (pts ! i) (pts ! Suc i)) \<Longrightarrow>
   findBreakEvenHours pts = None"
proof (induction pts rule: findBreakEvenHours.induct)
  case (1 current nxt rest)
  from "1.prems" have no: "\<not> risesThroughZero current nxt"
    by force
  have "\<forall>i. Suc i < length (nxt # rest) \<longrightarrow>
          \<not> risesThroughZero ((nxt # rest) ! i) ((nxt # rest) ! Suc i)"
  proof (intro allI impI)
    fix i assume "Suc i < length (nxt # rest)"
    then have "Suc (Suc i) < length (current # nxt # rest)" by simp
    with "1.prems" have "\<not> risesThroughZero ((current # nxt # rest) ! Suc i)
                                ((current # nxt # rest) ! Suc (Suc i))"
      by blast
    then show "\<not> risesThroughZero ((nxt # rest) ! i) ((nxt # rest) ! Suc i)" by simp
  qed
  then have "findBreakEvenHours (nxt # rest) = None"
    using no "1.IH" by (simp add: risesThroughZero_def)
  then show ?case
    using no by (simp only: findBreakEvenHours_step) simp
qed simp_all

lemma findBreakEvenHours_examples:
  "findBreakEvenHours
     [\<lparr> hoursPerWeek = 0, h_daysPerWeek = 0, h_netIncome = 0, h_grossIncome = 0,
        h_afterTax = 0, h_childcareCost = 0 \<rparr>,
      \<lparr> hoursPerWeek = 1 / 2, h_daysPerWeek = 1 / 10, h_netIncome = 100, h_grossIncome = 650,
        h_afterTax = 650, h_childcareCost = 550 \<rparr>,
      \<lparr> hoursPerWeek = 1, h_daysPerWeek = 1 / 10, h_netIncome = - 50, h_grossIncome = 1300,
        h_afterTax = 1300, h_childcareCost = 1350 \<rparr>,
      \<lparr> hoursPerWeek = 3 / 2, h_daysPerWeek = 2 / 10, h_netIncome = 50, h_grossIncome = 1950,
        h_afterTax = 1950, h_childcareCost = 1900 \<rparr>] = None"
  "risesThroughZero
     \<lparr> hoursPerWeek = 1, h_daysPerWeek = 1 / 10, h_netIncome = - 50, h_grossIncome = 1300,
       h_afterTax = 1300, h_childcareCost = 1350 \<rparr>
     \<lparr> hoursPerWeek = 3 / 2, h_daysPerWeek = 2 / 10, h_netIncome = 50, h_grossIncome = 1950,
       h_afterTax = 1950, h_childcareCost = 1900 \<rparr>"
  "crossingHours
     \<lparr> hoursPerWeek = 1, h_daysPerWeek = 1 / 10, h_netIncome = - 50, h_grossIncome = 1300,
       h_afterTax = 1300, h_childcareCost = 1350 \<rparr>
     \<lparr> hoursPerWeek = 3 / 2, h_daysPerWeek = 2 / 10, h_netIncome = 50, h_grossIncome = 1950,
       h_afterTax = 1950, h_childcareCost = 1900 \<rparr> = 5 / 4"
  "fallsThroughZero
     \<lparr> hoursPerWeek = 10, h_daysPerWeek = 13 / 10, h_netIncome = 500, h_grossIncome = 13000,
       h_afterTax = 13000, h_childcareCost = 12500 \<rparr>
     \<lparr> hoursPerWeek = 21 / 2, h_daysPerWeek = 14 / 10, h_netIncome = - 500, h_grossIncome = 13650,
       h_afterTax = 13650, h_childcareCost = 14150 \<rparr>"
  "findBreakEvenHours
     [\<lparr> hoursPerWeek = 10, h_daysPerWeek = 13 / 10, h_netIncome = 500, h_grossIncome = 13000,
        h_afterTax = 13000, h_childcareCost = 12500 \<rparr>,
      \<lparr> hoursPerWeek = 21 / 2, h_daysPerWeek = 14 / 10, h_netIncome = - 500, h_grossIncome = 13650,
        h_afterTax = 13650, h_childcareCost = 14150 \<rparr>] = None"
  by (simp_all add: risesThroughZero_def fallsThroughZero_def crossingHours_def)

text \<open>
  Claim C9.  When the first adjacent pair with net income \<open>\<le> 0\<close> followed by net income
  \<open>> 0\<close> interpolates to fewer than 0.5 hours per week, \<open>findBreakEvenHours\<close> returns
  null at once: later pairs are not scanned, even when one of them is a genuine
  crossing (second example: a crossing at 1.25 hours is not reported).  A pair that
  falls from positive to negative is never detected: without a rising pair the result
  is null (last example).
\<close>

theorem findBreakEvenHours_suppressed:
  "(\<forall>i. Suc i < length pts \<and> risesThroughZero (pts ! i) (pts ! Suc i) \<and>
        (\<forall>j<i. \<not> risesThroughZero (pts ! j) (pts ! Suc j)) \<and>
        crossingHours (pts ! i) (pts ! Suc i) < 1 / 2 \<longrightarrow>
        findBreakEvenHours pts = None) \<and>
   ((\<forall>i. Suc i < length pts \<longrightarrow> \<not> risesThroughZero (pts ! i) (pts ! Suc i)) \<longrightarrow>
        findBreakEvenHours pts = None) \<and>
   findBreakEvenHours
     [\<lparr> hoursPerWeek = 0, h_daysPerWeek = 0, h_netIncome = 0, h_grossIncome = 0,
        h_afterTax = 0, h_childcareCost = 0 \<rparr>,
      \<lparr> hoursPerWeek = 1 / 2, h_daysPerWeek = 1 / 10, h_netIncome = 100, h_grossIncome = 650,
        h_afterTax = 650, h_childcareCost = 550 \<rparr>,
      \<lparr> hoursPerWeek = 1, h_daysPerWeek = 1 / 10, h_netIncome = - 50, h_grossIncome = 1300,
        h_afterTax = 1300, h_childcareCost = 1350 \<rparr>,
      \<lparr> hoursPerWeek = 3 / 2, h_daysPerWeek = 2 / 10, h_netIncome = 50, h_grossIncome = 1950,
        h_afterTax = 1950, h_childcareCost = 1900 \<rparr>] = None \<and>
   risesThroughZero
     \<lparr> hoursPerWeek = 1, h_daysPerWeek = 1 / 10, h_netIncome = - 50, h_grossIncome = 1300,
       h_afterTax = 1300, h_childcareCost = 1350 \<rparr>
     \<lparr> hoursPerWeek = 3 / 2, h_daysPerWeek = 2 / 10, h_netIncome = 50, h_grossIncome = 1950,
       h_afterTax = 1950, h_childcareCost = 1900 \<rparr> \<and>
   crossingHours
     \<lparr> hoursPerWeek = 1, h_daysPerWeek = 1 / 10, h_netIncome = - 50, h_grossIncome = 1300,
       h_afterTax = 1300, h_childcareCost = 1350 \<rparr>
     \<lparr> hoursPerWeek = 3 / 2, h_daysPerWeek = 2 / 10, h_netIncome = 50, h_grossIncome = 1950,
       h_afterTax = 1950, h_childcareCost = 1900 \<rparr> = 5 / 4 \<and>
   fallsThroughZero
     \<lparr> hoursPerWeek = 10, h_daysPerWeek = 13 / 10, h_netIncome = 500, h_grossIncome = 13000,
       h_afterTax = 13000, h_childcareCost = 12500 \<rparr>
     \<lparr> hoursPerWeek = 21 / 2, h_daysPerWeek = 14 / 10, h_netIncome = - 500, h_grossIncome = 13650,
       h_afterTax = 13650, h_childcareCost = 14150 \<rparr> \<and>
   findBreakEvenHours
     [\<lparr> hoursPerWeek = 10, h_daysPerWeek = 13 / 10, h_netIncome = 500, h_grossIncome = 13000,
        h_afterTax = 13000, h_childcareCost = 12500 \<rparr>,
      \<lparr> hoursPerWeek = 21 / 2, h_daysPerWeek = 14 / 10, h_netIncome = - 500, h_grossIncome = 13650,
        h_afterTax = 13650, h_childcareCost = 14150 \<rparr>] = None"
proof -
  have a: "\<forall>i. Suc i < length pts \<and> risesThroughZero (pts ! i) (pts ! Suc i) \<and>
        (\<forall>j<i. \<not> risesThroughZero (pts ! j) (pts ! Suc j)) \<and>
        crossingHours (pts ! i) (pts ! Suc i) < 1 / 2 \<longrightarrow>
        findBreakEvenHours pts = None"
    using findBreakEvenHours_first[of _ pts] by auto
  have b: "(\<forall>i. Suc i < length pts \<longrightarrow> \<not> risesThroughZero (pts ! i) (pts ! Suc i)) \<longrightarrow>
        findBreakEvenHours pts = None"
    using findBreakEvenHours_none[of pts] by blast
  show ?thesis
    using a b findBreakEvenHours_examples by (intro conjI)
qed

theorem findBreakEvenHours_suppressed_witness:
  "findBreakEvenHours
     [\<lparr> hoursPerWeek = 0, h_daysPerWeek = 0, h_netIncome = - 10, h_grossIncome = 0,
        h_afterTax = 0, h_childcareCost = 10 \<rparr>,
      \<lparr> hoursPerWeek = 1 / 2, h_daysPerWeek = 1 / 10, h_netIncome = 30, h_grossIncome = 650,
        h_afterTax = 650, h_childcareCost = 620 \<rparr>,
      \<lparr> hoursPerWeek = 1, h_daysPerWeek = 1 / 10, h_netIncome = - 50, h_grossIncome = 1300,
        h_afterTax = 1300, h_childcareCost = 1350 \<rparr>,
      \<lparr> hoursPerWeek = 3 / 2, h_daysPerWeek = 2 / 10, h_netIncome = 50, h_grossIncome = 1950,
        h_afterTax = 1950, h_childcareCost = 1900 \<rparr>] = None \<and>
   findBreakEvenHours
     [\<lparr> hoursPerWeek = 20, h_daysPerWeek = 26 / 10, h_netIncome = 900, h_grossIncome = 26000,
        h_afterTax = 24000, h_childcareCost = 23100 \<rparr>,
      \<lparr> hoursPerWeek = 41 / 2, h_daysPerWeek = 27 / 10, h_netIncome = - 300, h_grossIncome = 26650,
        h_afterTax = 24500, h_childcareCost = 24800 \<rparr>] = None"
proof -
  let ?early = "[\<lparr> hoursPerWeek = 0, h_daysPerWeek = 0, h_netIncome = - 10, h_grossIncome = 0,
        h_afterTax = 0, h_childcareCost = 10 \<rparr>,
      \<lparr> hoursPerWeek = 1 / 2, h_daysPerWeek = 1 / 10, h_netIncome = 30, h_grossIncome = 650,
        h_afterTax = 650, h_childcareCost = 620 \<rparr>,
      \<lparr> hoursPerWeek = 1, h_daysPerWeek = 1 / 10, h_netIncome = - 50, h_grossIncome = 1300,
        h_afterTax = 1300, h_childcareCost = 1350 \<rparr>,
      \<lparr> hoursPerWeek = 3 / 2, h_daysPerWeek = 2 / 10, h_netIncome = 50, h_grossIncome = 1950,
        h_afterTax = 1950, h_childcareCost = 1900 \<rparr>]"
  let ?falling = "[\<lparr> hoursPerWeek = 20, h_daysPerWeek = 26 / 10, h_netIncome = 900, h_grossIncome = 26000,
        h_afterTax = 24000, h_childcareCost = 23100 \<rparr>,
      \<lparr> hoursPerWeek = 41 / 2, h_daysPerWeek = 27 / 10, h_netIncome = - 300, h_grossIncome = 26650,
        h_afterTax = 24500, h_childcareCost = 24800 \<rparr>]"
  have h: "Suc 0 < length ?early \<and> risesThroughZero (?early ! 0) (?early ! Suc 0) \<and>
           (\<forall>j<0. \<not> risesThroughZero (?early ! j) (?early ! Suc j)) \<and>
           crossingHours (?early ! 0) (?early ! Suc 0) < 1 / 2"
    by (simp add: risesThroughZero_def crossingHours_def)
  have a: "findBreakEvenHours ?early = None"
    using findBreakEvenHours_suppressed[of ?early] h by blast
  have g: "\<forall>i. Suc i < length ?falling \<longrightarrow>
             \<not> risesThroughZero (?falling ! i) (?falling ! Suc i)"
    by (simp add: risesThroughZero_def)
  have b: "findBreakEvenHours ?falling = None"
    using findBreakEvenHours_suppressed[of ?falling] g by blast
  show ?thesis
    using a b by (rule conjI)
qed

section \<open>Double arithmetic\<close>

lemma round_half_even_of_int: "round_half_even (of_int k) = k"
  by (simp add: round_half_even_def)

lemma to_double_exact:
  assumes "x \<noteq> 0" "x / double_spacing x = of_int k" "\<bar>x\<bar> < 2 ^ 1024"
  shows "to_double x = Fin x"
proof -
  have q: "double_spacing x > 0"
    by (simp add: double_spacing_def)
  have "x = of_int k * double_spacing x"
    using assms(2) q by (simp add: field_simps)
  then have "of_int (round_half_even (x / double_spacing x)) * double_spacing x = x"
    by (simp add: assms(2) round_half_even_of_int)
  then show ?thesis
    using assms(1,3) by (simp add: to_double_def Let_def)
qed

lemma safe_int_exponent:
  fixes n :: int
  assumes "n \<noteq> 0" "\<bar>n\<bar> \<le> 2 ^ 53"
  shows "0 \<le> \<lfloor>log 2 \<bar>of_int n :: real\<bar>\<rfloor>" "\<lfloor>log 2 \<bar>of_int n :: real\<bar>\<rfloor> \<le> 53"
proof -
  have "1 \<le> \<bar>n\<bar>"
    using assms(1) by simp
  then have "(of_int 1 :: real) \<le> of_int \<bar>n\<bar>"
    by (simp only: of_int_le_iff)
  then have one: "1 \<le> \<bar>of_int n :: real\<bar>"
    by simp
  then have "0 \<le> log 2 \<bar>of_int n :: real\<bar>"
    by simp
  then show "0 \<le> \<lfloor>log 2 \<bar>of_int n :: real\<bar>\<rfloor>"
    by simp
  have "(of_int \<bar>n\<bar> :: real) \<le> of_int (2 ^ 53)"
    using assms(2) by (simp only: of_int_le_iff)
  then have "\<bar>of_int n :: real\<bar> \<le> 2 ^ 53"
    by simp
  then have "log 2 \<bar>of_int n :: real\<bar> \<le> 53"
    using one by (simp add: log_le_iff)
  then show "\<lfloor>log 2 \<bar>of_int n :: real\<bar>\<rfloor> \<le> 53"
    by (simp add: floor_le_iff)
qed


lemma to_double_of_int:
  fixes n :: int
  assumes "\<bar>n\<bar> \<le> 2 ^ 53"
  shows "to_double (of_int n) = Fin (of_int n)"
proof (cases "n = 0")
  case True
  then show ?thesis by (simp add: to_double_def)
next
  case False
  define e where "e = \<lfloor>log 2 \<bar>of_int n :: real\<bar>\<rfloor>"
  have e0: "0 \<le> e" and e53: "e \<le> 53"
    unfolding e_def using safe_int_exponent[OF False assms] by simp_all
  have sp: "double_spacing (of_int n) = 2 powi (e - 52)"
    using e0 by (simp add: double_spacing_def e_def)
  have nz: "(of_int n :: real) \<noteq> 0"
    using False by simp
  have "(of_int \<bar>n\<bar> :: real) \<le> of_int (2 ^ 53)"
    using assms by (simp only: of_int_le_iff)
  then have ub: "\<bar>of_int n :: real\<bar> \<le> 2 ^ 53"
    by simp
  have "(2::real) ^ 53 < 2 ^ 1024"
    by (rule power_strict_increasing) simp_all
  with ub have fin: "\<bar>of_int n :: real\<bar> < 2 ^ 1024"
    by (rule le_less_trans)
  have "\<exists>k::int. of_int n / double_spacing (of_int n) = (of_int k :: real)"
  proof (cases "e \<le> 52")
    case True
    then have "e - 52 = - int (nat (52 - e))"
      by simp
    then have "(2::real) powi (e - 52) = inverse (2 powi int (nat (52 - e)))"
      by (simp only: power_int_minus)
    then have "(2::real) powi (e - 52) = inverse (2 ^ nat (52 - e))"
      by (simp only: power_int_of_nat)
    then have "of_int n / double_spacing (of_int n) = (of_int (n * 2 ^ nat (52 - e)) :: real)"
      by (simp add: sp divide_inverse)
    then show ?thesis by blast
  next
    case False
    with e53 have e: "e = 53" by simp
    have pos: "0 < \<bar>of_int n :: real\<bar>"
      using nz by simp
    have "(2::real) powr of_int e \<le> \<bar>of_int n\<bar>"
      using floor_log_eq_powr_iff[OF pos, of 2 e] by (simp add: e_def)
    then have "(2::real) ^ 53 \<le> \<bar>of_int n\<bar>"
      by (simp add: e)
    with ub have "\<bar>of_int n :: real\<bar> = of_int (2 ^ 53)"
      by simp
    then have "(of_int \<bar>n\<bar> :: real) = of_int (2 ^ 53)"
      by simp
    then have "\<bar>n\<bar> = 2 ^ 53"
      by (simp only: of_int_eq_iff)
    then have "even n"
      by (metis dvd_abs_iff even_numeral even_power zero_less_numeral)
    then obtain m where m: "n = 2 * m" by (rule evenE)
    have "double_spacing (of_int n) = 2"
      by (simp add: sp e)
    then have "of_int n / double_spacing (of_int n) = (of_int m :: real)"
      by (simp add: m)
    then show ?thesis by blast
  qed
  then obtain k :: int where "of_int n / double_spacing (of_int n) = (of_int k :: real)"
    by blast
  with nz fin show ?thesis
    by (intro to_double_exact)
qed

lemma js_add_exact:
  assumes "a \<in> \<int>" "b \<in> \<int>" "\<bar>a + b\<bar> \<le> 2 ^ 53"
  shows "js_add a b = Fin (a + b)"
proof -
  from assms(1,2) have "a + b \<in> \<int>" by simp
  then obtain n :: int where n: "a + b = of_int n" by (rule Ints_cases)
  with assms(3) have "(of_int \<bar>n\<bar> :: real) \<le> of_int (2 ^ 53)"
    by simp
  then have "\<bar>n\<bar> \<le> 2 ^ 53"
    by (simp only: of_int_le_iff)
  then show ?thesis
    by (simp add: js_add_def n to_double_of_int)
qed

text \<open>Evaluation of the rounding when the binade of the argument is known.\<close>

lemma to_double_binade:
  assumes "2 powi e \<le> \<bar>x\<bar>" "\<bar>x\<bar> < 2 powi (e + 1)" "- 1022 \<le> e"
    and "\<bar>of_int (round_half_even (x / 2 powi (e - 52))) * 2 powi (e - 52)\<bar> < (2::real) ^ 1024"
  shows "to_double x = Fin (of_int (round_half_even (x / 2 powi (e - 52))) * 2 powi (e - 52))"
proof -
  have pos: "0 < \<bar>x\<bar>"
    using assms(1) by (rule less_le_trans[rotated]) simp
  have lo: "(2::real) powr of_int e = 2 powi e"
    by (simp add: powr_real_of_int')
  have "(2::real) powr of_int (e + 1) = 2 powi (e + 1)"
    by (rule powr_real_of_int') simp_all
  then have hi: "(2::real) powr (of_int e + 1) = 2 powi (e + 1)"
    by simp
  have "(2::real) powr of_int e \<le> \<bar>x\<bar> \<and> \<bar>x\<bar> < 2 powr (of_int e + 1)"
    using assms(1,2) by (simp only: lo hi)
  then have "\<lfloor>log 2 \<bar>x\<bar>\<rfloor> = e"
    using floor_log_eq_powr_iff[OF pos, of 2 e] by simp
  then have "double_spacing x = 2 powi (e - 52)"
    using assms(3) by (simp add: double_spacing_def)
  then show ?thesis
    using pos assms(4) by (simp add: to_double_def Let_def)
qed

text \<open>
  The doubles written \<open>0.1\<close> and \<open>0.3\<close>, and the sums \<open>0.1 + 0.1\<close> and
  \<open>0.1 + 0.1 + 0.1 = 0.30000000000000004\<close>: the last one is rounded at a tie.
\<close>

lemma to_double_tenth:
  "to_double (1 / 10) = Fin (3602879701896397 / 36028797018963968)"
  "to_double (3 / 10) = Fin (5404319552844595 / 18014398509481984)"
  by (subst to_double_binade[where e = "- 4"], simp_all add: round_half_even_def Let_def,
      subst to_double_binade[where e = "- 2"], simp_all add: round_half_even_def Let_def)

lemma js_add_tenths:
  "js_add 0 (3602879701896397 / 36028797018963968) = Fin (3602879701896397 / 36028797018963968)"
  "js_add (3602879701896397 / 36028797018963968) (3602879701896397 / 36028797018963968)
     = Fin (3602879701896397 / 18014398509481984)"
  "js_add (3602879701896397 / 18014398509481984) (3602879701896397 / 36028797018963968)
     = Fin (5404319552844596 / 18014398509481984)"
  unfolding js_add_def
  by (subst to_double_binade[where e = "- 4"], simp_all add: round_half_even_def Let_def,
      subst to_double_binade[where e = "- 3"], simp_all add: round_half_even_def Let_def,
      subst to_double_binade[where e = "- 2"], simp_all add: round_half_even_def Let_def)

lemma js_add_absorbed:
  "js_add 100000 (1 / 2 ^ 40) = Fin 100000"
  unfolding js_add_def
  by (subst to_double_binade[where e = 16], simp_all add: round_half_even_def Let_def)

section \<open>The samples of the income sweep\<close>

lemma grossIncome_graphDataPoint:
  "grossIncome (graphDataPoint fpi cs act single x) = x"
  by (simp add: graphDataPoint_def Let_def)

text \<open>
  The sweep from 0 to the double \<open>0.3\<close> in steps of the double \<open>0.1\<close> has three
  samples: the fourth value is \<open>0.30000000000000004\<close>.
\<close>

lemma calculateGraphData_tenths:
  "map_option (map grossIncome)
     (calculateGraphData 90000 [] 80 0 (5404319552844595 / 18014398509481984)
        (3602879701896397 / 36028797018963968) False)
   = Some [0, 3602879701896397 / 36028797018963968, 3602879701896397 / 18014398509481984]"
  by (simp add: calculateGraphData_def calculateGraphData_loop.simps js_add_tenths
      grossIncome_graphDataPoint)

text \<open>A step that the addition absorbs: the counter stays where it is.\<close>

lemma calculateGraphData_loop_stalls:
  assumes "calculateGraphData_loop fpi cs act mx step single acc x = Some r"
  shows "\<not> (x \<le> mx \<and> js_add x step = Fin x)"
proof (rule calculateGraphData_loop.raw_induct
    [where P = "\<lambda>a b c mx step d e x r. \<not> (x \<le> mx \<and> js_add x step = Fin x)", OF _ assms])
  fix loop a b c mx' step' d e and x' :: real and r'
  assume IH: "\<And>a b c mx step d e x r.
      loop a b c mx step d e x = Some r \<Longrightarrow> \<not> (x \<le> mx \<and> js_add x step = Fin x)"
    and body: "(if x' \<le> mx'
                then case js_add x' step' of
                       Fin nextIncome \<Rightarrow>
                         loop a b c mx' step' d (e @ [graphDataPoint a b c d x']) nextIncome
                     | PosInf \<Rightarrow> Some (e @ [graphDataPoint a b c d x'])
                     | NegInf \<Rightarrow> None
                     | NaN \<Rightarrow> Some (e @ [graphDataPoint a b c d x'])
                else Some e) = Some r'"
  show "\<not> (x' \<le> mx' \<and> js_add x' step' = Fin x')"
  proof
    assume st: "x' \<le> mx' \<and> js_add x' step' = Fin x'"
    with body have "loop a b c mx' step' d (e @ [graphDataPoint a b c d x']) x' = Some r'"
      by simp
    from IH[OF this] st show False by simp
  qed
qed

lemma calculateGraphData_absorbed_step:
  "calculateGraphData 90000 [] 80 100000 100001 (1 / 2 ^ 40) False = None"
proof (cases "calculateGraphData 90000 [] 80 100000 100001 (1 / 2 ^ 40) False")
  case None
  then show ?thesis .
next
  case (Some r)
  then have "calculateGraphData_loop 90000 [] 80 100001 (1 / 2 ^ 40) False [] 100000 = Some r"
    by (simp add: calculateGraphData_def)
  from calculateGraphData_loop_stalls[OF this] js_add_absorbed show ?thesis
    by simp
qed

lemma sweepCount_next:
  assumes "0 < step" "x \<le> mx"
  shows "sweepCount x mx step = Suc (sweepCount (x + step) mx step)"
proof (cases "x + step \<le> mx")
  case True
  have "(mx - (x + step)) / step = (mx - x) / step - 1"
    using assms(1) by (simp add: field_simps)
  then have fl: "\<lfloor>(mx - (x + step)) / step\<rfloor> = \<lfloor>(mx - x) / step\<rfloor> - 1"
    by simp
  have "0 \<le> (mx - (x + step)) / step"
    using True assms(1) by simp
  then have "0 \<le> \<lfloor>(mx - (x + step)) / step\<rfloor>"
    by simp
  with fl have "nat \<lfloor>(mx - x) / step\<rfloor> = Suc (nat \<lfloor>(mx - (x + step)) / step\<rfloor>)"
    by linarith
  with True assms(2) show ?thesis
    by (simp add: sweepCount_def)
next
  case False
  have "0 \<le> (mx - x) / step" "(mx - x) / step < 1"
    using False assms by simp_all
  then have "\<lfloor>(mx - x) / step\<rfloor> = 0"
    by linarith
  with False assms(2) show ?thesis
    by (simp add: sweepCount_def)
qed

text \<open>Every value of the grid that is counted lies in the range.\<close>

lemma sweep_grid_le:
  assumes "0 < step" "i < sweepCount mn mx step"
  shows "mn + real i * step \<le> mx"
proof -
  from assms(2) have le: "mn \<le> mx" and i: "i \<le> nat \<lfloor>(mx - mn) / step\<rfloor>"
    by (auto simp: sweepCount_def split: if_splits)
  have nn: "0 \<le> \<lfloor>(mx - mn) / step\<rfloor>"
    using assms(1) le by simp
  have "real i \<le> real (nat \<lfloor>(mx - mn) / step\<rfloor>)"
    using i by simp
  also have "\<dots> = of_int \<lfloor>(mx - mn) / step\<rfloor>"
    using nn by simp
  also have "\<dots> \<le> (mx - mn) / step"
    by simp
  finally have "real i * step \<le> (mx - mn) / step * step"
    using assms(1) by (intro mult_right_mono) simp_all
  then show ?thesis
    using assms(1) by simp
qed

text \<open>The loop, as long as every addition it performs is exact.\<close>

lemma calculateGraphData_loop_result:
  assumes "0 < step"
    and "\<And>i. i < sweepCount x mx step \<Longrightarrow>
           js_add (x + real i * step) step = Fin (x + real (Suc i) * step)"
  shows "calculateGraphData_loop fpi cs act mx step single acc x =
           Some (acc @ map (\<lambda>i. graphDataPoint fpi cs act single (x + real i * step))
                         [0..<sweepCount x mx step])"
  using assms(2)
proof (induction "sweepCount x mx step" arbitrary: acc x)
  case 0
  then have "\<not> x \<le> mx"
    by (auto simp: sweepCount_def split: if_splits)
  with 0 show ?case
    by (subst calculateGraphData_loop.simps) simp
next
  case (Suc n)
  then have le: "x \<le> mx"
    by (auto simp: sweepCount_def split: if_splits)
  have cnt: "sweepCount x mx step = Suc (sweepCount (x + step) mx step)"
    using assms(1) le by (rule sweepCount_next)
  with Suc.hyps(2) have n: "n = sweepCount (x + step) mx step"
    by simp
  have "js_add (x + real 0 * step) step = Fin (x + real (Suc 0) * step)"
    by (rule Suc.prems) (simp add: cnt)
  then have add: "js_add x step = Fin (x + step)"
    by simp
  have later: "js_add (x + step + real i * step) step = Fin (x + step + real (Suc i) * step)"
    if "i < sweepCount (x + step) mx step" for i
  proof -
    from that have "Suc i < sweepCount x mx step"
      by (simp add: cnt)
    then have "js_add (x + real (Suc i) * step) step = Fin (x + real (Suc (Suc i)) * step)"
      by (rule Suc.prems)
    then show ?thesis
      by (simp add: algebra_simps)
  qed
  have "calculateGraphData_loop fpi cs act mx step single acc x =
        calculateGraphData_loop fpi cs act mx step single
          (acc @ [graphDataPoint fpi cs act single x]) (x + step)"
    using le add by (subst calculateGraphData_loop.simps) simp
  also have "\<dots> = Some ((acc @ [graphDataPoint fpi cs act single x]) @
        map (\<lambda>i. graphDataPoint fpi cs act single (x + step + real i * step))
          [0..<sweepCount (x + step) mx step])"
    using n later by (rule Suc.hyps(1))
  also have "\<dots> = Some (acc @ map (\<lambda>i. graphDataPoint fpi cs act single (x + real i * step))
                         [0..<sweepCount x mx step])"
    by (simp only: cnt map_upt_Suc) (simp add: algebra_simps)
  finally show ?case .
qed

text \<open>On integers up to \<open>2 ^ 53\<close> in magnitude every addition of the loop is exact.\<close>

lemma sweep_additions_exact:
  assumes "mn \<in> \<int>" "step \<in> \<int>" "0 < step" "- (2 ^ 53) \<le> mn" "mx + step \<le> 2 ^ 53"
    and "i < sweepCount mn mx step"
  shows "js_add (mn + real i * step) step = Fin (mn + real (Suc i) * step)"
proof -
  have g: "mn + real i * step \<in> \<int>"
    using assms(1,2) by (intro Ints_add Ints_mult) simp_all
  have le: "mn + real i * step \<le> mx"
    using assms(3,6) by (rule sweep_grid_le)
  have "0 \<le> real i * step"
    using assms(3) by simp
  then have lo: "- (2 ^ 53) \<le> mn + real i * step + step"
    using assms(3,4) by linarith
  have hi: "mn + real i * step + step \<le> 2 ^ 53"
    using le assms(5) by linarith
  have "\<bar>mn + real i * step + step\<bar> \<le> 2 ^ 53"
    using lo hi by linarith
  then have "js_add (mn + real i * step) step = Fin (mn + real i * step + step)"
    using g assms(2) by (intro js_add_exact)
  then show ?thesis
    by (simp add: algebra_simps)
qed

lemma sweep_contains_max:
  assumes "0 < step" "mn \<le> mx"
  shows "mx \<in> (\<lambda>i. mn + real i * step) ` {0..<sweepCount mn mx step}
           \<longleftrightarrow> (\<exists>k::nat. mx = mn + real k * step)"
proof
  assume "mx \<in> (\<lambda>i. mn + real i * step) ` {0..<sweepCount mn mx step}"
  then show "\<exists>k::nat. mx = mn + real k * step" by blast
next
  assume "\<exists>k::nat. mx = mn + real k * step"
  then obtain k :: nat where k: "mx = mn + real k * step" ..
  then have "(mx - mn) / step = real k"
    using assms(1) by simp
  then have "\<lfloor>(mx - mn) / step\<rfloor> = int k"
    by simp
  then have "k < sweepCount mn mx step"
    using assms(2) by (simp add: sweepCount_def)
  with k show "mx \<in> (\<lambda>i. mn + real i * step) ` {0..<sweepCount mn mx step}"
    by auto
qed

lemma sweep_last:
  assumes "0 < step" "mn \<le> mx"
  shows "mn + real (sweepCount mn mx step - 1) * step \<le> mx"
    and "mx - step < mn + real (sweepCount mn mx step - 1) * step"
proof -
  have nn: "0 \<le> \<lfloor>(mx - mn) / step\<rfloor>"
    using assms by simp
  have c: "real (sweepCount mn mx step - 1) = of_int \<lfloor>(mx - mn) / step\<rfloor>"
    using assms(2) nn by (simp add: sweepCount_def)
  have q: "(mx - mn) / step * step = mx - mn"
    using assms(1) by simp
  have "of_int \<lfloor>(mx - mn) / step\<rfloor> * step \<le> (mx - mn) / step * step"
    using assms(1) by (intro mult_right_mono) simp_all
  then have "of_int \<lfloor>(mx - mn) / step\<rfloor> * step \<le> mx - mn"
    by (simp only: q)
  then show "mn + real (sweepCount mn mx step - 1) * step \<le> mx"
    using c by simp
  have "(mx - mn) / step < of_int \<lfloor>(mx - mn) / step\<rfloor> + 1"
    by linarith
  then have "(mx - mn) / step * step < (of_int \<lfloor>(mx - mn) / step\<rfloor> + 1) * step"
    using assms(1) by (rule mult_strict_right_mono)
  then have "mx - mn < (of_int \<lfloor>(mx - mn) / step\<rfloor> + 1) * step"
    by (simp only: q)
  then show "mx - step < mn + real (sweepCount mn mx step - 1) * step"
    using c by (simp add: algebra_simps)
qed

lemma calculateGraphData_result:
  assumes "mn \<in> \<int>" "step \<in> \<int>" "0 < step" "- (2 ^ 53) \<le> mn" "mx + step \<le> 2 ^ 53"
  shows "calculateGraphData fpi cs act mn mx step single =
           Some (map (\<lambda>i. graphDataPoint fpi cs act single (mn + real i * step))
                   [0..<sweepCount mn mx step])"
proof -
  have "calculateGraphData_loop fpi cs act mx step single [] mn =
          Some ([] @ map (\<lambda>i. graphDataPoint fpi cs act single (mn + real i * step))
                       [0..<sweepCount mn mx step])"
    using assms(3) sweep_additions_exact[OF assms]
    by (rule calculateGraphData_loop_result)
  then show ?thesis
    by (simp add: calculateGraphData_def)
qed

text \<open>
  Claim C4, as stated, fails: the sweep from 0 to 12000 in steps of 5000 returns the
  samples at 0, 5000 and 10000, and none at 12000.
\<close>

theorem calculateGraphData_misses_maxIncome:
  "(0::real) \<le> 12000 \<and> (0::real) < 5000 \<and>
   map_option (map grossIncome) (calculateGraphData 90000 [] 80 0 12000 5000 False)
     = Some [0, 5000, 10000] \<and>
   (12000::real) \<notin> set [0, 5000, 10000]"
  by (simp add: calculateGraphData_def calculateGraphData_loop.simps js_add_exact
      grossIncome_graphDataPoint)

text \<open>
  Claim C4, amended.  Let \<open>minIncome\<close> and \<open>step\<close> be integers with
  \<open>minIncome \<le> maxIncome\<close>, \<open>step > 0\<close>, \<open>minIncome \<ge> - 2 ^ 53\<close> and
  \<open>maxIncome + step \<le> 2 ^ 53\<close>, so that every addition of the loop is exact in double
  arithmetic.  Then the sweep returns, and its samples are those at
  \<open>minIncome + i * step\<close> for \<open>i = 0, \<dots>, floor ((maxIncome - minIncome) / step)\<close>.  The
  first sample is at \<open>minIncome\<close>; the last lies in \<open>(maxIncome - step, maxIncome]\<close>; and
  a sample at \<open>maxIncome\<close> exists exactly when \<open>maxIncome - minIncome\<close> is a multiple of
  the step.  The second instance below is a range the income graph passes, from 0 to
  8050000 in steps of 100000: the last sample is at 8000000.
\<close>

theorem calculateGraphData_samples:
  "minIncome \<in> \<int> \<Longrightarrow> step \<in> \<int> \<Longrightarrow> minIncome \<le> maxIncome \<Longrightarrow> 0 < step \<Longrightarrow>
   - (2 ^ 53) \<le> minIncome \<Longrightarrow> maxIncome + step \<le> 2 ^ 53 \<Longrightarrow>
   \<exists>pts. calculateGraphData fpi cs act minIncome maxIncome step single = Some pts \<and>
     map grossIncome pts =
       map (\<lambda>i. minIncome + real i * step) [0..<nat \<lfloor>(maxIncome - minIncome) / step\<rfloor> + 1] \<and>
     grossIncome (hd pts) = minIncome \<and>
     grossIncome (last pts) \<le> maxIncome \<and>
     maxIncome - step < grossIncome (last pts) \<and>
     (maxIncome \<in> set (map grossIncome pts)
        \<longleftrightarrow> (\<exists>k::nat. maxIncome = minIncome + real k * step))"
proof -
  assume ints: "minIncome \<in> \<int>" "step \<in> \<int>"
    and le: "minIncome \<le> maxIncome" and pos: "0 < step"
    and safe: "- (2 ^ 53) \<le> minIncome" "maxIncome + step \<le> 2 ^ 53"
  define n where "n = sweepCount minIncome maxIncome step"
  define pts where
    "pts = map (\<lambda>i. graphDataPoint fpi cs act single (minIncome + real i * step)) [0..<n]"
  have n: "n = nat \<lfloor>(maxIncome - minIncome) / step\<rfloor> + 1"
    using le by (simp add: n_def sweepCount_def)
  then have n0: "0 < n" by simp
  have res: "calculateGraphData fpi cs act minIncome maxIncome step single = Some pts"
    unfolding pts_def n_def using ints pos safe by (rule calculateGraphData_result)
  have gross: "map grossIncome pts = map (\<lambda>i. minIncome + real i * step) [0..<n]"
    by (simp add: pts_def grossIncome_graphDataPoint comp_def)
  have "hd pts = graphDataPoint fpi cs act single (minIncome + real 0 * step)"
    using n0 by (simp add: pts_def hd_map upt_conv_Cons)
  then have first: "grossIncome (hd pts) = minIncome"
    by (simp add: grossIncome_graphDataPoint)
  have "last pts = graphDataPoint fpi cs act single (minIncome + real (n - 1) * step)"
    using n0 by (simp add: pts_def last_map)
  then have lst: "grossIncome (last pts) = minIncome + real (n - 1) * step"
    by (simp add: grossIncome_graphDataPoint)
  have l1: "grossIncome (last pts) \<le> maxIncome"
    unfolding lst n_def using pos le by (rule sweep_last)
  have l2: "maxIncome - step < grossIncome (last pts)"
    unfolding lst n_def using pos le by (rule sweep_last)
  have "set (map grossIncome pts) = (\<lambda>i. minIncome + real i * step) ` {0..<n}"
    by (simp add: gross)
  then have mem: "maxIncome \<in> set (map grossIncome pts)
        \<longleftrightarrow> (\<exists>k::nat. maxIncome = minIncome + real k * step)"
    unfolding n_def using sweep_contains_max[OF pos le] by simp
  show ?thesis
  proof (intro exI[of _ pts] conjI)
    show "calculateGraphData fpi cs act minIncome maxIncome step single = Some pts"
      by (rule res)
    show "map grossIncome pts =
       map (\<lambda>i. minIncome + real i * step) [0..<nat \<lfloor>(maxIncome - minIncome) / step\<rfloor> + 1]"
      using gross n by simp
    show "grossIncome (hd pts) = minIncome"
      by (rule first)
    show "grossIncome (last pts) \<le> maxIncome"
      by (rule l1)
    show "maxIncome - step < grossIncome (last pts)"
      by (rule l2)
    show "maxIncome \<in> set (map grossIncome pts)
        \<longleftrightarrow> (\<exists>k::nat. maxIncome = minIncome + real k * step)"
      by (rule mem)
  qed
qed

theorem calculateGraphData_samples_witness:
  "(50000::real) \<in> \<int> \<and> (10000::real) \<in> \<int> \<and> (50000::real) \<le> 100000 \<and> (0::real) < 10000 \<and>
   - (2 ^ 53) \<le> (50000::real) \<and> (100000::real) + 10000 \<le> 2 ^ 53 \<and>
   (\<exists>pts. calculateGraphData 90000 [] 80 50000 100000 10000 False = Some pts \<and>
      grossIncome (hd pts) = 50000 \<and> grossIncome (last pts) \<le> 100000 \<and>
      100000 \<in> set (map grossIncome pts)) \<and>
   (\<exists>pts. calculateGraphData 104496 [] 76 0 8050000 100000 False = Some pts \<and>
      grossIncome (hd pts) = 0 \<and> 7950000 < grossIncome (last pts) \<and>
      8050000 \<notin> set (map grossIncome pts))"
proof -
  have i1: "(50000::real) \<in> \<int>" and i2: "(10000::real) \<in> \<int>"
    by simp_all
  have le: "(50000::real) \<le> 100000" and pos: "(0::real) < 10000"
    by simp_all
  have s1: "- (2 ^ 53) \<le> (50000::real)" and s2: "(100000::real) + 10000 \<le> 2 ^ 53"
    by simp_all
  have k: "\<exists>k::nat. (100000::real) = 50000 + real k * 10000"
    by (rule exI[of _ 5]) simp
  from calculateGraphData_samples[OF i1 i2 le pos s1 s2, of 90000 "[]" 80 False] k
  have a: "\<exists>pts. calculateGraphData 90000 [] 80 50000 100000 10000 False = Some pts \<and>
      grossIncome (hd pts) = 50000 \<and> grossIncome (last pts) \<le> 100000 \<and>
      100000 \<in> set (map grossIncome pts)"
    by blast
  have j1: "(0::real) \<in> \<int>" and j2: "(100000::real) \<in> \<int>"
    by simp_all
  have le': "(0::real) \<le> 8050000" and pos': "(0::real) < 100000"
    by simp_all
  have t1: "- (2 ^ 53) \<le> (0::real)" and t2: "(8050000::real) + 100000 \<le> 2 ^ 53"
    by simp_all
  have nk: "\<not> (\<exists>k::nat. (8050000::real) = 0 + real k * 100000)"
  proof
    assume "\<exists>k::nat. (8050000::real) = 0 + real k * 100000"
    then obtain k :: nat where "(8050000::real) = 0 + real k * 100000" ..
    then have "real (k * 100000) = real 8050000"
      by simp
    then have "k * 100000 = 8050000"
      by (simp only: of_nat_eq_iff)
    then have "(8050000::nat) mod 100000 = 0"
      by (metis mod_mult_self2_is_0)
    then show False
      by simp
  qed
  from calculateGraphData_samples[OF j1 j2 le' pos' t1 t2, of 104496 "[]" 76 False]
  obtain pts where p: "calculateGraphData 104496 [] 76 0 8050000 100000 False = Some pts"
      "grossIncome (hd pts) = 0" "8050000 - 100000 < grossIncome (last pts)"
      "8050000 \<in> set (map grossIncome pts)
         \<longleftrightarrow> (\<exists>k::nat. (8050000::real) = 0 + real k * 100000)"
    by blast
  from p(3) have p3: "7950000 < grossIncome (last pts)"
    by simp
  from p(4) nk have p4: "8050000 \<notin> set (map grossIncome pts)"
    by (simp only: not_False_eq_True)
  have b: "\<exists>pts. calculateGraphData 104496 [] 76 0 8050000 100000 False = Some pts \<and>
      grossIncome (hd pts) = 0 \<and> 7950000 < grossIncome (last pts) \<and>
      8050000 \<notin> set (map grossIncome pts)"
    using p(1,2) p3 p4 by blast
  show ?thesis
    by (intro conjI) (rule i1 i2 le pos s1 s2 a b)+
qed

section \<open>Divisions of the scenario evaluator\<close>

lemmas scenario_defs =
  calculateSecondParentScenario_def calculateTotalCosts_def totalCosts_child_def
  calculateChildSubsidy_def calculateSubsidyPercent_def calculateSubsidisedHours_def
  calculateAfterTaxIncome_def calculateIncomeTax_def calculateMedicareLevy_def
  js_div_def js_times_def is_finite_def Math_floor_def subsidy_constants Let_def

lemma effectiveHourlyRate_guarded:
  "is_finite (effectiveHourlyRate (calculateSecondParentScenario scenario))"
  "(case secondParentHoursPerFortnight scenario of
      Some hours \<Rightarrow> hours | None \<Rightarrow> activityHoursPerFortnight scenario) = 0 \<Longrightarrow>
   effectiveHourlyRate (calculateSecondParentScenario scenario) = Fin 0"
  by (simp_all add: calculateSecondParentScenario_def Let_def js_div_def is_finite_def)

lemma percentageOfIncomeLost_unguarded:
  "percentageOfIncomeLost (calculateSecondParentScenario scenario) =
     js_times (js_div (secondParentIncome scenario
                        - netIncomeAfterChildcare (calculateSecondParentScenario scenario))
                 (secondParentIncome scenario)) 100"
  by (simp add: calculateSecondParentScenario_def Let_def)

lemma percentageOfIncomeLost_not_finite:
  "secondParentIncome scenario = 0 \<Longrightarrow>
   \<not> is_finite (percentageOfIncomeLost (calculateSecondParentScenario scenario))"
  by (simp add: percentageOfIncomeLost_unguarded js_div_def js_times_def is_finite_def)

text \<open>
  Claim C3.  The quotient for \<open>effectiveHourlyRate\<close> is guarded (lemma
  \<open>effectiveHourlyRate_guarded\<close>), the quotient for \<open>percentageOfIncomeLost\<close> is not:
  with a second-parent income of 0 and no children it is \<open>0 / 0 * 100 = NaN\<close>, and
  with the two children of the repository's test scenario it is \<open>Infinity\<close>.
\<close>

theorem percentageOfIncomeLost_zero_income:
  "percentageOfIncomeLost
     (calculateSecondParentScenario
        \<lparr> secondParentIncome = 0, firstParentIncome = 90000, children = [],
          activityHoursPerFortnight = 80, secondParentHoursPerFortnight = None \<rparr>) = NaN \<and>
   percentageOfIncomeLost
     (calculateSecondParentScenario
        \<lparr> secondParentIncome = 0, firstParentIncome = 90000,
          children =
            [\<lparr> age = under_school, hoursPerDay = 8, daysPerWeek = 5, hourlyRate = 15,
               isSecondOrLater = False \<rparr>,
             \<lparr> age = under_school, hoursPerDay = 8, daysPerWeek = 5, hourlyRate = 15,
               isSecondOrLater = True \<rparr>],
          activityHoursPerFortnight = 80, secondParentHoursPerFortnight = None \<rparr>) = PosInf \<and>
   \<not> is_finite NaN \<and> \<not> is_finite PosInf"
  by (simp add: scenario_defs)

section \<open>Point lookup on the income sweep\<close>

lemma findPointForIncome_divisor:
  "bracketsTarget current nxt t \<Longrightarrow> grossIncome current \<noteq> t \<Longrightarrow> grossIncome nxt \<noteq> t \<Longrightarrow>
   grossIncome nxt - grossIncome current > 0"
  by (auto simp: bracketsTarget_def)

lemma findPointForIncome_scan_step:
  "findPointForIncome_scan (current # nxt # rest) t =
     (if bracketsTarget current nxt t
      then Some (if grossIncome current = t then current
                 else if grossIncome nxt = t then nxt
                 else interpolatedPoint current nxt t)
      else findPointForIncome_scan (nxt # rest) t)"
  by (simp add: bracketsTarget_def interpolatedPoint_def Let_def)

lemma findPointForIncome_scan_first:
  "Suc i < length pts \<Longrightarrow> bracketsTarget (pts ! i) (pts ! Suc i) t \<Longrightarrow>
   (\<forall>j<i. \<not> bracketsTarget (pts ! j) (pts ! Suc j) t) \<Longrightarrow>
   findPointForIncome_scan pts t =
     Some (if grossIncome (pts ! i) = t then pts ! i
           else if grossIncome (pts ! Suc i) = t then pts ! Suc i
           else interpolatedPoint (pts ! i) (pts ! Suc i) t)"
proof (induction pts t arbitrary: i rule: findPointForIncome_scan.induct)
  case (1 current nxt rest t)
  show ?case
  proof (cases i)
    case 0
    with "1.prems" show ?thesis
      by (simp only: findPointForIncome_scan_step) simp
  next
    case (Suc i')
    with "1.prems"(3) have no: "\<not> bracketsTarget current nxt t"
      by force
    have a: "Suc i' < length (nxt # rest)"
      using "1.prems"(1) Suc by simp
    have b: "bracketsTarget ((nxt # rest) ! i') ((nxt # rest) ! Suc i') t"
      using "1.prems"(2) Suc by simp
    have c: "\<forall>j<i'. \<not> bracketsTarget ((nxt # rest) ! j) ((nxt # rest) ! Suc j) t"
    proof (intro allI impI)
      fix j assume "j < i'"
      then have "Suc j < i" using Suc by simp
      with "1.prems"(3) have "\<not> bracketsTarget ((current # nxt # rest) ! Suc j)
                                  ((current # nxt # rest) ! Suc (Suc j)) t"
        by blast
      then show "\<not> bracketsTarget ((nxt # rest) ! j) ((nxt # rest) ! Suc j) t"
        by simp
    qed
    have "findPointForIncome_scan (nxt # rest) t =
            Some (if grossIncome ((nxt # rest) ! i') = t then (nxt # rest) ! i'
                  else if grossIncome ((nxt # rest) ! Suc i') = t then (nxt # rest) ! Suc i'
                  else interpolatedPoint ((nxt # rest) ! i') ((nxt # rest) ! Suc i') t)"
      using no "1.IH"[OF _ a b c] by (simp add: bracketsTarget_def)
    then show ?thesis
      using no Suc by (simp only: findPointForIncome_scan_step) simp
  qed
qed simp_all

lemma findPointForIncome_scan_none:
  "(\<forall>i. Suc i < length pts \<longrightarrow> \<not> bracketsTarget (pts ! i) (pts ! Suc i) t) \<Longrightarrow>
   findPointForIncome_scan pts t = None"
proof (induction pts t rule: findPointForIncome_scan.induct)
  case (1 current nxt rest t)
  from "1.prems" have no: "\<not> bracketsTarget current nxt t"
    by force
  have "\<forall>i. Suc i < length (nxt # rest) \<longrightarrow>
          \<not> bracketsTarget ((nxt # rest) ! i) ((nxt # rest) ! Suc i) t"
  proof (intro allI impI)
    fix i assume "Suc i < length (nxt # rest)"
    then have "Suc (Suc i) < length (current # nxt # rest)" by simp
    with "1.prems" have "\<not> bracketsTarget ((current # nxt # rest) ! Suc i)
                                ((current # nxt # rest) ! Suc (Suc i)) t"
      by blast
    then show "\<not> bracketsTarget ((nxt # rest) ! i) ((nxt # rest) ! Suc i) t" by simp
  qed
  then have "findPointForIncome_scan (nxt # rest) t = None"
    using no "1.IH" by (simp add: bracketsTarget_def)
  then show ?case
    using no by (simp only: findPointForIncome_scan_step) simp
qed simp_all

text \<open>A target inside the range of an ascending sequence is bracketed by some pair.\<close>

lemma bracket_exists:
  "2 \<le> length pts \<Longrightarrow> grossIncome (hd pts) \<le> t \<Longrightarrow> t \<le> grossIncome (last pts) \<Longrightarrow>
   \<exists>i. Suc i < length pts \<and> bracketsTarget (pts ! i) (pts ! Suc i) t"
proof (induction pts t rule: findPointForIncome_scan.induct)
  case (1 current nxt rest t)
  show ?case
  proof (cases "t \<le> grossIncome nxt")
    case True
    with "1.prems"(2) have "bracketsTarget ((current # nxt # rest) ! 0)
                              ((current # nxt # rest) ! Suc 0) t"
      by (simp add: bracketsTarget_def)
    then show ?thesis
      by (intro exI[of _ 0]) simp
  next
    case False
    then have rest: "rest \<noteq> []"
      using "1.prems"(3) by auto
    then have len: "2 \<le> length (nxt # rest)"
      by (cases rest) simp_all
    have nb: "\<not> (grossIncome current \<le> t \<and> t \<le> grossIncome nxt)"
      using False by simp
    have "\<exists>i. Suc i < length (nxt # rest) \<and>
              bracketsTarget ((nxt # rest) ! i) ((nxt # rest) ! Suc i) t"
      using "1.IH"[OF nb len] False "1.prems"(3) rest by simp
    then obtain i where "Suc i < length (nxt # rest)"
        "bracketsTarget ((nxt # rest) ! i) ((nxt # rest) ! Suc i) t"
      by blast
    then show ?thesis
      by (intro exI[of _ "Suc i"]) simp
  qed
qed simp_all

lemma first_bracket_exists:
  assumes "2 \<le> length pts" "grossIncome (hd pts) \<le> t" "t \<le> grossIncome (last pts)"
  shows "\<exists>i. Suc i < length pts \<and> bracketsTarget (pts ! i) (pts ! Suc i) t \<and>
             (\<forall>j<i. \<not> bracketsTarget (pts ! j) (pts ! Suc j) t)"
proof -
  let ?P = "\<lambda>i. Suc i < length pts \<and> bracketsTarget (pts ! i) (pts ! Suc i) t"
  from bracket_exists[OF assms] obtain i where i: "?P i" by blast
  define m where "m = (LEAST i. ?P i)"
  have pm: "?P m"
    unfolding m_def using i by (rule LeastI)
  have "\<forall>j<m. \<not> bracketsTarget (pts ! j) (pts ! Suc j) t"
  proof (intro allI impI notI)
    fix j assume jm: "j < m" and b: "bracketsTarget (pts ! j) (pts ! Suc j) t"
    from jm pm have "Suc j < length pts" by simp
    with b have "?P j" by simp
    then have "m \<le> j" unfolding m_def by (rule Least_le)
    with jm show False by simp
  qed
  with pm show ?thesis by blast
qed

lemma gross_nth_mono:
  assumes "sorted (map grossIncome pts)" "i \<le> j" "j < length pts"
  shows "grossIncome (pts ! i) \<le> grossIncome (pts ! j)"
  using sorted_nth_mono[OF assms(1), of i j] assms(2,3) by simp

lemma bracket_in_range:
  assumes "sorted (map grossIncome pts)" "Suc i < length pts"
    and "bracketsTarget (pts ! i) (pts ! Suc i) t"
  shows "grossIncome (hd pts) \<le> t \<and> t \<le> grossIncome (last pts)"
proof -
  have ne: "pts \<noteq> []" using assms(2) by auto
  have "grossIncome (pts ! 0) \<le> grossIncome (pts ! i)"
    using assms(1,2) by (intro gross_nth_mono) simp_all
  moreover have "grossIncome (pts ! Suc i) \<le> grossIncome (pts ! (length pts - 1))"
    using assms(1,2) by (intro gross_nth_mono) simp_all
  ultimately show ?thesis
    using assms(3) ne by (simp add: bracketsTarget_def hd_conv_nth last_conv_nth)
qed

lemma findPointForIncome_exact:
  assumes srt: "sorted (map grossIncome pts)" and len: "2 \<le> length pts"
    and k: "k < length pts"
  shows "\<exists>q. findPointForIncome pts (grossIncome (pts ! k)) = Some q \<and> q \<in> set pts \<and>
             grossIncome q = grossIncome (pts ! k)"
proof -
  let ?t = "grossIncome (pts ! k)"
  have ne: "pts \<noteq> []" using k by auto
  have lo: "grossIncome (hd pts) \<le> ?t"
    using gross_nth_mono[OF srt, of 0 k] k ne by (simp add: hd_conv_nth)
  have hi: "?t \<le> grossIncome (last pts)"
    using gross_nth_mono[OF srt, of k "length pts - 1"] k ne by (simp add: last_conv_nth)
  from first_bracket_exists[OF len lo hi] obtain i where
    i: "Suc i < length pts" "bracketsTarget (pts ! i) (pts ! Suc i) ?t"
       "\<forall>j<i. \<not> bracketsTarget (pts ! j) (pts ! Suc j) ?t"
    by blast
  have res: "findPointForIncome pts ?t =
     Some (if grossIncome (pts ! i) = ?t then pts ! i
           else if grossIncome (pts ! Suc i) = ?t then pts ! Suc i
           else interpolatedPoint (pts ! i) (pts ! Suc i) ?t)"
    using findPointForIncome_scan_first[OF i] ne by (simp add: findPointForIncome_def)
  have hit: "grossIncome (pts ! i) = ?t \<or> grossIncome (pts ! Suc i) = ?t"
  proof (cases "k \<le> i")
    case True
    then have "?t \<le> grossIncome (pts ! i)"
      using i(1) by (intro gross_nth_mono[OF srt]) simp_all
    with i(2) show ?thesis by (simp add: bracketsTarget_def)
  next
    case False
    then have "grossIncome (pts ! Suc i) \<le> ?t"
      using k by (intro gross_nth_mono[OF srt]) simp_all
    with i(2) show ?thesis by (simp add: bracketsTarget_def)
  qed
  show ?thesis
  proof (cases "grossIncome (pts ! i) = ?t")
    case True
    with res have "findPointForIncome pts ?t = Some (pts ! i)" by simp
    moreover have "pts ! i \<in> set pts" using i(1) by simp
    ultimately show ?thesis using True by blast
  next
    case False
    with hit have eq: "grossIncome (pts ! Suc i) = ?t" by simp
    with res False have "findPointForIncome pts ?t = Some (pts ! Suc i)" by simp
    moreover have "pts ! Suc i \<in> set pts" using i(1) by simp
    ultimately show ?thesis using eq by blast
  qed
qed

lemma findPointForIncome_between:
  assumes srt: "sorted (map grossIncome pts)" and i: "Suc i < length pts"
    and lo: "grossIncome (pts ! i) < t" and hi: "t < grossIncome (pts ! Suc i)"
  shows "findPointForIncome pts t = Some (interpolatedPoint (pts ! i) (pts ! Suc i) t)"
proof -
  have b: "bracketsTarget (pts ! i) (pts ! Suc i) t"
    using lo hi by (simp add: bracketsTarget_def)
  have first: "\<forall>j<i. \<not> bracketsTarget (pts ! j) (pts ! Suc j) t"
  proof (intro allI impI)
    fix j assume "j < i"
    then have "grossIncome (pts ! Suc j) \<le> grossIncome (pts ! i)"
      using i by (intro gross_nth_mono[OF srt]) simp_all
    with lo show "\<not> bracketsTarget (pts ! j) (pts ! Suc j) t"
      by (simp add: bracketsTarget_def)
  qed
  have ne: "pts \<noteq> []" using i by auto
  show ?thesis
    using findPointForIncome_scan_first[OF i b first] lo hi ne
    by (simp add: findPointForIncome_def)
qed

lemma findPointForIncome_none_iff:
  assumes srt: "sorted (map grossIncome pts)" and len: "2 \<le> length pts"
  shows "findPointForIncome pts t = None
           \<longleftrightarrow> t < grossIncome (hd pts) \<or> grossIncome (last pts) < t"
proof
  assume none: "findPointForIncome pts t = None"
  show "t < grossIncome (hd pts) \<or> grossIncome (last pts) < t"
  proof (rule ccontr)
    assume "\<not> (t < grossIncome (hd pts) \<or> grossIncome (last pts) < t)"
    then have lo: "grossIncome (hd pts) \<le> t" and hi: "t \<le> grossIncome (last pts)"
      by simp_all
    from first_bracket_exists[OF len lo hi] obtain i where
      i: "Suc i < length pts" "bracketsTarget (pts ! i) (pts ! Suc i) t"
         "\<forall>j<i. \<not> bracketsTarget (pts ! j) (pts ! Suc j) t"
      by blast
    have "pts \<noteq> []" using i(1) by auto
    then have "findPointForIncome pts t \<noteq> None"
      using findPointForIncome_scan_first[OF i] by (simp add: findPointForIncome_def)
    with none show False by simp
  qed
next
  assume out: "t < grossIncome (hd pts) \<or> grossIncome (last pts) < t"
  have "\<forall>i. Suc i < length pts \<longrightarrow> \<not> bracketsTarget (pts ! i) (pts ! Suc i) t"
    using bracket_in_range[OF srt] out by fastforce
  then have "findPointForIncome_scan pts t = None"
    by (rule findPointForIncome_scan_none)
  then show "findPointForIncome pts t = None"
    by (simp add: findPointForIncome_def)
qed

lemma findPointForIncome_single:
  "findPointForIncome [p] t = None"
  by (simp add: findPointForIncome_def)

text \<open>
  Claim C7.  On an ascending sequence of at least two samples the function behaves as
  claimed (lemmas \<open>findPointForIncome_exact\<close>, \<open>findPointForIncome_between\<close> and
  \<open>findPointForIncome_none_iff\<close>).  A sequence of one sample has no adjacent pair:
  the loop body never runs and the result is null, also for the target that coincides
  with the sample, which lies inside the sampled range.
\<close>

theorem findPointForIncome_single_sample:
  "findPointForIncome
     [\<lparr> grossIncome = 80000, netIncome = 30000, afterTax = 62000, childcareCost = 32000 \<rparr>]
     80000 = None \<and>
   sorted (map grossIncome
     [\<lparr> grossIncome = 80000, netIncome = 30000, afterTax = 62000, childcareCost = 32000 \<rparr>]) \<and>
   grossIncome
     (hd [\<lparr> grossIncome = 80000, netIncome = 30000, afterTax = 62000, childcareCost = 32000 \<rparr>])
     = 80000"
  by (simp add: findPointForIncome_def)

end
